theory Spec2Isabelle
  imports Complex_Main "HOL-Library.AList" "HOL-Library.Multiset"
begin

section \<open>GCE resource metrics: the three collectors\<close>

text \<open>
  The repository holds three variants of one collector:
  \<^item> the pull variant (package main with the Prometheus gauges; \<open>gcloud\<close> is run as a
    subprocess and its JSON output decoded),
  \<^item> the interface-based push variant (\<open>CustomGaugeMetric\<close>, \<open>ReportLabeledTimeseries\<close>,
    values of type int64),
  \<^item> the push variant of \<open>monitoring/gce/resource_metrics.go\<close>
    (\<open>reportLabeledTimeseries\<close>, values of type float64).
  Each is embedded below, function by function. What the outside world answers (the
  inventory, the monitoring API, the clock, the order of a \<open>range\<close> over a map) is an
  explicit environment; what the program does to the outside world is a list of events.
\<close>

subsection \<open>Go maps\<close>

text \<open>
  A Go \<open>map[string]T\<close> is an association list with distinct keys. \<open>m[k]\<close> on an absent
  key reads the zero value of \<open>T\<close>; \<open>m[k] = v\<close> overwrites or adds. The position of an
  entry in the list has no meaning for the program: a \<open>range\<close> over the map visits the
  keys in the order the environment's \<open>shuffle\<close> gives (Go leaves that order
  unspecified).
\<close>

type_synonym 'v gomap = "(string \<times> 'v) list"

definition mapIndex :: "'v \<Rightarrow> 'v gomap \<Rightarrow> string \<Rightarrow> 'v" where
  "mapIndex zero m k = (case map_of m k of None \<Rightarrow> zero | Some v \<Rightarrow> v)"

definition mapAssign :: "string \<Rightarrow> 'v \<Rightarrow> 'v gomap \<Rightarrow> 'v gomap" where
  "mapAssign k v m = AList.update k v m"

text \<open>\<open>for k, v := range m\<close>: the entries of \<open>m\<close>, keys in the order \<open>shuffle\<close> picks.\<close>

definition rangeMap :: "(string list \<Rightarrow> string list) \<Rightarrow> 'v gomap \<Rightarrow> (string \<times> 'v) list" where
  "rangeMap shuffle m =
     concat (map (\<lambda>k. case map_of m k of None \<Rightarrow> [] | Some v \<Rightarrow> [(k, v)]) (shuffle (map fst m)))"

text \<open>An order is one a \<open>range\<close> can take when it only permutes the keys.\<close>

definition rangeOrder :: "(string list \<Rightarrow> string list) \<Rightarrow> bool" where
  "rangeOrder shuffle = (\<forall>ks. mset (shuffle ks) = mset ks)"

subsection \<open>Inventory records\<close>

text \<open>
  Of \<open>compute.Firewall\<close> the collectors read \<open>Network\<close>, of \<open>compute.Address\<close> they read
  \<open>Status\<close>; of target pools, forwarding rules, networks and routes only the number of
  items. Go's \<open>int\<close> is modelled by \<open>int\<close>: a count is at most the length of a slice,
  which Go bounds by the largest \<open>int\<close>, so \<open>metrics[k]++\<close> never wraps and
  \<open>int64(c)\<close> keeps the number. \<open>float64(c)\<close> is the real number \<open>c\<close>: the
  conversion is exact for every count below \<open>2^53\<close>.
\<close>

record Firewall =
  Network :: string

record Address =
  Status :: string

text \<open>
  The counting loop of every labelled metric
  (\<open>metrics := make(map[string]int); for _, a := range items { metrics[a.Field]++ }\<close>),
  with the field read as \<open>sel\<close>.
\<close>

definition countStep :: "('a \<Rightarrow> string) \<Rightarrow> 'a \<Rightarrow> int gomap \<Rightarrow> int gomap" where
  "countStep sel a metrics = mapAssign (sel a) (mapIndex 0 metrics (sel a) + 1) metrics"

definition countByLabel :: "('a \<Rightarrow> string) \<Rightarrow> 'a list \<Rightarrow> int gomap" where
  "countByLabel sel items = fold (countStep sel) items []"

subsection \<open>Errors, log lines and events\<close>

text \<open>
  A Go \<open>error\<close> is a value carrying its message; \<open>nil\<close> is \<open>None\<close> of
  \<open>error option\<close>. A log line keeps its format string and its arguments, unformatted.
  An event is one effect on the outside world, in program order.
\<close>

datatype error = Error string

datatype logarg =
    ArgStr string
  | ArgStrs "string list"
  | ArgInt int
  | ArgErr "error option"
  | ArgResp

text \<open>The structs of the monitoring API that the push variants fill in.\<close>

record MetricDescriptorLabelDescriptor =
  Key :: string
  ldDescription :: string

record MetricDescriptorTypeDescriptor =
  MetricType :: string
  ValueType :: string

record MetricDescriptor =
  mdProject :: string
  mdName :: string
  mdDescription :: string
  TypeDescriptor :: MetricDescriptorTypeDescriptor
  mdLabels :: "MetricDescriptorLabelDescriptor list"

record Point =
  Int64Value :: "int option"
  DoubleValue :: "real option"
  Start :: string
  End :: string

record TimeseriesDescriptor =
  Metric :: string
  tsProject :: string
  tsLabels :: "string gomap option"

record TimeseriesPoint =
  Point :: Point
  TimeseriesDesc :: TimeseriesDescriptor

record WriteTimeseriesRequest =
  Timeseries :: "TimeseriesPoint list"

datatype event =
    Log string "logarg list"
  | Fatal string "logarg list"
  | Exec string "string list"
  | Register string
  | Serve int
  | GaugeSet string "string list" real
  | ApiList string string
  | CreateCall string MetricDescriptor
  | WriteCall string WriteTimeseriesRequest
  | Sleep int

text \<open>
  \<open>log.Fatalf\<close> ends the process: a run is \<open>Exited\<close> after it. A run that is still
  in its scrape loop when the observed cycles are used up is \<open>Running\<close>.
\<close>

datatype outcome = Exited | Running

text \<open>The command line flags (\<open>port\<close> exists in the pull variant only).\<close>

record flags =
  project :: string
  port :: int
  scrapePeriod :: int

subsection \<open>The pull variant\<close>

text \<open>
  What the outside answers in the pull variant: the combined output and the error of the
  \<open>gcloud\<close> subprocess for given arguments, the result of \<open>json.Unmarshal\<close> into each
  slice type, and the order of a \<open>range\<close> over a map. Items of which only the number
  is read are not modelled further (\<open>unit\<close>).
\<close>

record pullWorld =
  gcloud :: "string list \<Rightarrow> string \<times> error option"
  unmarshalFirewalls :: "string \<Rightarrow> error + Firewall list"
  unmarshalTargetPools :: "string \<Rightarrow> error + unit list"
  unmarshalForwardingRules :: "string \<Rightarrow> error + unit list"
  unmarshalAddresses :: "string \<Rightarrow> error + Address list"
  unmarshalNetworks :: "string \<Rightarrow> error + unit list"
  unmarshalRoutes :: "string \<Rightarrow> error + unit list"
  pullShuffle :: "string list \<Rightarrow> string list"

definition checkArgs :: "flags \<Rightarrow> event list \<times> outcome" where
  "checkArgs fl =
     (if project fl = []
      then ([Fatal ''Error: Empty project. A project name must be specified.'' []], Exited)
      else ([], Running))"

definition getRawResource ::
  "pullWorld \<Rightarrow> string \<Rightarrow> string \<Rightarrow> event list \<times> string \<times> error option" where
  "getRawResource w proj resource =
     (let args = [''--project='' @ proj, ''compute'', resource, ''list'', ''--format=json'',
                  ''--quiet'']
      in ([Log ''Running: gcloud %s'' [ArgStrs args], Exec ''gcloud'' args], gcloud w args))"

definition processFirewallRules :: "pullWorld \<Rightarrow> string \<Rightarrow> event list" where
  "processFirewallRules w proj =
     (case getRawResource w proj ''firewall-rules'' of
        (evs, out, Some err) \<Rightarrow>
          evs @ [Log ''WARN: Error calling gcloud(%v): %s\<newline>'' [ArgErr (Some err), ArgStr out]]
      | (evs, out, None) \<Rightarrow>
          (case unmarshalFirewalls w out of
             Inl err \<Rightarrow>
               evs @ [Log ''WARN: Error json decoding firewalls: %v\<newline>'' [ArgErr (Some err)]]
           | Inr firewalls \<Rightarrow>
               evs @ [Log ''Num firewalls: %d'' [ArgInt (int (length firewalls))]] @
               map (\<lambda>(s, c). GaugeSet ''gce_firewall_rules'' [s] (real_of_int c))
                 (rangeMap (pullShuffle w) (countByLabel Network firewalls))))"

definition processTargetPools :: "pullWorld \<Rightarrow> string \<Rightarrow> event list" where
  "processTargetPools w proj =
     (case getRawResource w proj ''target-pools'' of
        (evs, out, Some err) \<Rightarrow>
          evs @ [Log ''WARN: Error calling gcloud(%v): %s\<newline>'' [ArgErr (Some err), ArgStr out]]
      | (evs, out, None) \<Rightarrow>
          (case unmarshalTargetPools w out of
             Inl err \<Rightarrow>
               evs @ [Log ''WARN: Error json decoding targetPools: %v\<newline>'' [ArgErr (Some err)]]
           | Inr targetPools \<Rightarrow>
               evs @ [Log ''Num targetPools: %d'' [ArgInt (int (length targetPools))],
                      GaugeSet ''gce_target_pools'' [] (real (length targetPools))]))"

definition processForwadingRules :: "pullWorld \<Rightarrow> string \<Rightarrow> event list" where
  "processForwadingRules w proj =
     (case getRawResource w proj ''forwarding-rules'' of
        (evs, out, Some err) \<Rightarrow>
          evs @ [Log ''WARN: Error calling gcloud(%v): %s\<newline>'' [ArgErr (Some err), ArgStr out]]
      | (evs, out, None) \<Rightarrow>
          (case unmarshalForwardingRules w out of
             Inl err \<Rightarrow>
               evs @ [Log ''WARN: Error json decoding fwdRules: %v\<newline>'' [ArgErr (Some err)]]
           | Inr fwdRules \<Rightarrow>
               evs @ [Log ''Num fwdRules: %d'' [ArgInt (int (length fwdRules))],
                      GaugeSet ''gce_forwarding_rules'' [] (real (length fwdRules))]))"

definition processAddresses :: "pullWorld \<Rightarrow> string \<Rightarrow> event list" where
  "processAddresses w proj =
     (case getRawResource w proj ''addresses'' of
        (evs, out, Some err) \<Rightarrow>
          evs @ [Log ''WARN: Error calling gcloud(%v): %s\<newline>'' [ArgErr (Some err), ArgStr out]]
      | (evs, out, None) \<Rightarrow>
          (case unmarshalAddresses w out of
             Inl err \<Rightarrow>
               evs @ [Log ''WARN: Error json decoding addresses: %v\<newline>'' [ArgErr (Some err)]]
           | Inr addresses \<Rightarrow>
               evs @ [Log ''Num addresses: %d'' [ArgInt (int (length addresses))]] @
               map (\<lambda>(s, c). GaugeSet ''gce_ip_addresses'' [s] (real_of_int c))
                 (rangeMap (pullShuffle w) (countByLabel Status addresses))))"

definition processNetworks :: "pullWorld \<Rightarrow> string \<Rightarrow> event list" where
  "processNetworks w proj =
     (case getRawResource w proj ''networks'' of
        (evs, out, Some err) \<Rightarrow>
          evs @ [Log ''WARN: Error calling gcloud(%v): %s\<newline>'' [ArgErr (Some err), ArgStr out]]
      | (evs, out, None) \<Rightarrow>
          (case unmarshalNetworks w out of
             Inl err \<Rightarrow>
               evs @ [Log ''WARN: Error json decoding networks: %v\<newline>'' [ArgErr (Some err)]]
           | Inr networks \<Rightarrow>
               evs @ [Log ''Num networks: %d'' [ArgInt (int (length networks))],
                      GaugeSet ''gce_networks'' [] (real (length networks))]))"

definition processRoutes :: "pullWorld \<Rightarrow> string \<Rightarrow> event list" where
  "processRoutes w proj =
     (case getRawResource w proj ''routes'' of
        (evs, out, Some err) \<Rightarrow>
          evs @ [Log ''WARN: Error fetching routes(%v): %s\<newline>'' [ArgErr (Some err), ArgStr out]]
      | (evs, out, None) \<Rightarrow>
          (case unmarshalRoutes w out of
             Inl err \<Rightarrow>
               evs @ [Log ''WARN: Error json decoding routes: %v\<newline>'' [ArgErr (Some err)]]
           | Inr routes \<Rightarrow>
               evs @ [Log ''Num routes: %d'' [ArgInt (int (length routes))],
                      GaugeSet ''gce_routes'' [] (real (length routes))]))"

text \<open>
  \<open>runScraper\<close> loops for ever; the model runs one cycle per observed state of the
  world, so the list of worlds is how long the loop is watched.
\<close>

fun runScraper :: "string \<Rightarrow> int \<Rightarrow> pullWorld list \<Rightarrow> event list" where
  "runScraper proj period [] = []"
| "runScraper proj period (w # ws) =
     Log ''INFO: Starting scrape loop.'' [] #
     processFirewallRules w proj @
     processForwadingRules w proj @
     processTargetPools w proj @
     processRoutes w proj @
     processNetworks w proj @
     processAddresses w proj @
     Sleep period # runScraper proj period ws"

text \<open>
  \<open>main\<close> of the pull variant. The six gauges are fresh and distinct, so
  \<open>MustRegister\<close> succeeds; the HTTP handler runs beside the loop and only reads.
\<close>

definition main_pull :: "flags \<Rightarrow> pullWorld list \<Rightarrow> event list \<times> outcome" where
  "main_pull fl ws =
     (case checkArgs fl of
        (evs, Exited) \<Rightarrow> (evs, Exited)
      | (evs, Running) \<Rightarrow>
          (evs @
           [Register ''gce_firewall_rules'', Register ''gce_target_pools'',
            Register ''gce_forwarding_rules'', Register ''gce_ip_addresses'',
            Register ''gce_networks'', Register ''gce_routes'', Serve (port fl)] @
           runScraper (project fl) (scrapePeriod fl) ws, Running))"

subsection \<open>What both push variants share\<close>

text \<open>
  What the outside answers to a push variant: whether the three clients can be built,
  each list call of the compute API (by project; \<open>Inr\<close> carries \<open>list.Items\<close>, which
  is a map from scope to scoped list for the aggregated calls), the error of a
  descriptor creation and of a timeseries write, the formatted time, and the order of a
  \<open>range\<close> over a map.
\<close>

record pushWorld =
  DefaultClient :: "error option"
  compute_New :: "error option"
  cloudmonitoring_New :: "error option"
  Firewalls_List :: "string \<Rightarrow> error + Firewall list"
  TargetPools_AggregatedList :: "string \<Rightarrow> error + unit list gomap"
  ForwardingRules_AggregatedList :: "string \<Rightarrow> error + unit list gomap"
  GlobalForwardingRules_List :: "string \<Rightarrow> error + unit list"
  Addresses_AggregatedList :: "string \<Rightarrow> error + Address list gomap"
  GlobalAddresses_List :: "string \<Rightarrow> error + Address list"
  Networks_List :: "string \<Rightarrow> error + unit list"
  Routes_List :: "string \<Rightarrow> error + unit list"
  MetricDescriptors_Create :: "string \<Rightarrow> MetricDescriptor \<Rightarrow> error option"
  Timeseries_Write :: "string \<Rightarrow> WriteTimeseriesRequest \<Rightarrow> error option"
  nowTime :: string
  shuffle :: "string list \<Rightarrow> string list"

text \<open>
  \<open>Monitor\<close> holds the project and two client handles; the handles have no state of
  their own, their answers are the world's.
\<close>

record Monitor =
  Project :: string

record MetricDescription =
  Name :: string
  Description :: string
  Labels :: "string list"

text \<open>\<open>fmt.Sprintf("custom.cloudmonitoring.googleapis.com/%s", x)\<close>\<close>

definition customName :: "string \<Rightarrow> string" where
  "customName x = ''custom.cloudmonitoring.googleapis.com/'' @ x"

text \<open>
  \<open>fixLabels\<close> is the same function in both files. A nil map is \<open>None\<close>.
\<close>

definition fixLabels ::
  "(string list \<Rightarrow> string list) \<Rightarrow> string gomap option \<Rightarrow> string gomap option" where
  "fixLabels shf labels =
     (case labels of
        None \<Rightarrow> None
      | Some lm \<Rightarrow>
          Some (fold (\<lambda>(l, v) munged. mapAssign (customName l) v munged) (rangeMap shf lm) []))"

text \<open>
  The label loop of descriptor creation
  (\<open>for _, l := range metric.Labels { labels = append(labels, ...) }\<close>), the same in
  both files.
\<close>

definition labelDescriptors :: "string list \<Rightarrow> MetricDescriptorLabelDescriptor list" where
  "labelDescriptors ls = map (\<lambda>l. \<lparr>Key = customName l, ldDescription = l\<rparr>) ls"

subsection \<open>The interface-based push variant\<close>

text \<open>The descriptor that \<open>createMetricDescriptor\<close> builds before it calls the API.\<close>

definition int64Descriptor :: "Monitor \<Rightarrow> MetricDescription \<Rightarrow> MetricDescriptor" where
  "int64Descriptor m metric =
     \<lparr>mdProject = Project m,
      mdName = customName (Name metric),
      mdDescription = Description metric,
      TypeDescriptor = \<lparr>MetricType = ''gauge'', ValueType = ''int64''\<rparr>,
      mdLabels = (if length (Labels metric) \<noteq> 0 then labelDescriptors (Labels metric) else [])\<rparr>"

definition createMetricDescriptor ::
  "pushWorld \<Rightarrow> Monitor \<Rightarrow> MetricDescription \<Rightarrow> event list \<times> outcome" where
  "createMetricDescriptor w m metric =
     (let md = int64Descriptor m metric in
      case MetricDescriptors_Create w (Project m) md of
        Some err \<Rightarrow>
          ([CreateCall (Project m) md,
            Fatal ''Error creating firewall metric: %v'' [ArgErr (Some err)]], Exited)
      | None \<Rightarrow>
          ([CreateCall (Project m) md, Log ''Created metric: %s\<newline>'' [ArgResp]], Running))"

definition ReportLabeledTimeseries ::
  "pushWorld \<Rightarrow> Monitor \<Rightarrow> string \<Rightarrow> int list \<Rightarrow> string gomap option list \<Rightarrow>
     event list \<times> error option" where
  "ReportLabeledTimeseries w m name vals labels =
     (if length vals = 0 then ([], None)
      else
        let points =
              map (\<lambda>(i, val).
                    \<lparr>Point = \<lparr>Int64Value = Some val, DoubleValue = None,
                              Start = nowTime w, End = nowTime w\<rparr>,
                     TimeseriesDesc =
                       \<lparr>Metric = customName name, tsProject = Project m,
                        tsLabels = (if length labels > i then fixLabels (shuffle w) (labels ! i)
                                    else None)\<rparr>\<rparr>)
                (enumerate 0 vals);
            req = \<lparr>Timeseries = points\<rparr>;
            err = Timeseries_Write w (Project m) req
        in ([WriteCall (Project m) req,
             Log ''Resp: %v\<newline>Err: %v\<newline>'' [ArgResp, ArgErr err]], err))"

definition ReportTimeseries ::
  "pushWorld \<Rightarrow> Monitor \<Rightarrow> string \<Rightarrow> int \<Rightarrow> event list \<times> error option" where
  "ReportTimeseries w m name val = ReportLabeledTimeseries w m name [val] []"

definition FirewallRules_MetricDescription :: MetricDescription where
  "FirewallRules_MetricDescription =
     \<lparr>Name = ''gce_firewall_rules'',
      Description = ''Count of firewall rules in the project, labeled by network'',
      Labels = [''network'']\<rparr>"

definition FirewallRules_ProcessMetric ::
  "pushWorld \<Rightarrow> Monitor \<Rightarrow> event list \<times> error option" where
  "FirewallRules_ProcessMetric w m =
     (case Firewalls_List w (Project m) of
        Inl err \<Rightarrow> ([ApiList ''Firewalls.List'' (Project m)], Some err)
      | Inr items \<Rightarrow>
          let metrics = countByLabel Network items;
              entries = rangeMap (shuffle w) metrics;
              vals = map (\<lambda>(s, c). c) entries;
              labels = map (\<lambda>(s, c). Some [(''network'', s)]) entries;
              (evs, err) = ReportLabeledTimeseries w m ''gce_firewall_rules'' vals labels
          in ([ApiList ''Firewalls.List'' (Project m),
               Log ''Num firewalls: %d'' [ArgInt (int (length items))]] @ evs, err))"

definition TargetPools_MetricDescription :: MetricDescription where
  "TargetPools_MetricDescription =
     \<lparr>Name = ''gce_target_pools'',
      Description = ''Count of target pools in the project'',
      Labels = []\<rparr>"

definition TargetPools_ProcessMetric ::
  "pushWorld \<Rightarrow> Monitor \<Rightarrow> event list \<times> error option" where
  "TargetPools_ProcessMetric w m =
     (case TargetPools_AggregatedList w (Project m) of
        Inl err \<Rightarrow> ([ApiList ''TargetPools.AggregatedList'' (Project m)], Some err)
      | Inr items \<Rightarrow>
          let (evs, err) = ReportTimeseries w m ''gce_target_pools'' (int (length items))
          in ([ApiList ''TargetPools.AggregatedList'' (Project m),
               Log ''Num target pools: %d'' [ArgInt (int (length items))]] @ evs, err))"

definition ForwardingRules_MetricDescription :: MetricDescription where
  "ForwardingRules_MetricDescription =
     \<lparr>Name = ''gce_forwarding_rules'',
      Description = ''Count of forwarding rules in the project'',
      Labels = []\<rparr>"

definition ForwardingRules_ProcessMetric ::
  "pushWorld \<Rightarrow> Monitor \<Rightarrow> event list \<times> error option" where
  "ForwardingRules_ProcessMetric w m =
     (case ForwardingRules_AggregatedList w (Project m) of
        Inl err \<Rightarrow> ([ApiList ''ForwardingRules.AggregatedList'' (Project m)], Some err)
      | Inr items \<Rightarrow>
          let (evs, err) = ReportTimeseries w m ''gce_forwarding_rules'' (int (length items))
          in ([ApiList ''ForwardingRules.AggregatedList'' (Project m),
               Log ''Num forwarding rules: %d'' [ArgInt (int (length items))]] @ evs, err))"

definition GlobalForwardingRules_MetricDescription :: MetricDescription where
  "GlobalForwardingRules_MetricDescription =
     \<lparr>Name = ''gce_global_forwarding_rules'',
      Description = ''Count of global forwarding rules in the project'',
      Labels = []\<rparr>"

definition GlobalForwardingRules_ProcessMetric ::
  "pushWorld \<Rightarrow> Monitor \<Rightarrow> event list \<times> error option" where
  "GlobalForwardingRules_ProcessMetric w m =
     (case GlobalForwardingRules_List w (Project m) of
        Inl err \<Rightarrow> ([ApiList ''GlobalForwardingRules.List'' (Project m)], Some err)
      | Inr items \<Rightarrow>
          let (evs, err) =
                ReportTimeseries w m ''gce_global_forwarding_rules'' (int (length items))
          in ([ApiList ''GlobalForwardingRules.List'' (Project m),
               Log ''Num global forwarding rules: %d'' [ArgInt (int (length items))]] @ evs,
              err))"

definition Networks_MetricDescription :: MetricDescription where
  "Networks_MetricDescription =
     \<lparr>Name = ''gce_networks'',
      Description = ''Count of networks in the project'',
      Labels = [''network'']\<rparr>"

definition Networks_ProcessMetric ::
  "pushWorld \<Rightarrow> Monitor \<Rightarrow> event list \<times> error option" where
  "Networks_ProcessMetric w m =
     (case Networks_List w (Project m) of
        Inl err \<Rightarrow> ([ApiList ''Networks.List'' (Project m)], Some err)
      | Inr items \<Rightarrow>
          let (evs, err) = ReportTimeseries w m ''gce_networks'' (int (length items))
          in ([ApiList ''Networks.List'' (Project m),
               Log ''Num networks: %d'' [ArgInt (int (length items))]] @ evs, err))"

definition Routes_MetricDescription :: MetricDescription where
  "Routes_MetricDescription =
     \<lparr>Name = ''gce_routes'',
      Description = ''Count of routes in the project'',
      Labels = [''network'']\<rparr>"

definition Routes_ProcessMetric ::
  "pushWorld \<Rightarrow> Monitor \<Rightarrow> event list \<times> error option" where
  "Routes_ProcessMetric w m =
     (case Routes_List w (Project m) of
        Inl err \<Rightarrow> ([ApiList ''Routes.List'' (Project m)], Some err)
      | Inr items \<Rightarrow>
          let (evs, err) = ReportTimeseries w m ''gce_routes'' (int (length items))
          in ([ApiList ''Routes.List'' (Project m),
               Log ''Num routes: %d'' [ArgInt (int (length items))]] @ evs, err))"

definition Addresses_MetricDescription :: MetricDescription where
  "Addresses_MetricDescription =
     \<lparr>Name = ''gce_addresses'',
      Description = ''Count of external IP addresses in the project, labeled by status'',
      Labels = [''status'']\<rparr>"

definition Addresses_ProcessMetric ::
  "pushWorld \<Rightarrow> Monitor \<Rightarrow> event list \<times> error option" where
  "Addresses_ProcessMetric w m =
     (case Addresses_AggregatedList w (Project m) of
        Inl err \<Rightarrow> ([ApiList ''Addresses.AggregatedList'' (Project m)], Some err)
      | Inr items \<Rightarrow>
          let metrics =
                fold (\<lambda>(scope, scopedList) metrics. fold (countStep Status) scopedList metrics)
                  (rangeMap (shuffle w) items) [];
              entries = rangeMap (shuffle w) metrics;
              vals = map (\<lambda>(s, c). c) entries;
              labels = map (\<lambda>(s, c). Some [(''status'', s)]) entries;
              (evs, err) = ReportLabeledTimeseries w m ''gce_addresses'' vals labels
          in ([ApiList ''Addresses.AggregatedList'' (Project m),
               Log ''Num addresses: %d'' [ArgInt (int (length items))]] @ evs, err))"

definition GlobalAddresses_MetricDescription :: MetricDescription where
  "GlobalAddresses_MetricDescription =
     \<lparr>Name = ''gce_global_addresses'',
      Description =
        ''Count of global external IP addresses in the project, labeled by status'',
      Labels = [''status'']\<rparr>"

definition GlobalAddresses_ProcessMetric ::
  "pushWorld \<Rightarrow> Monitor \<Rightarrow> event list \<times> error option" where
  "GlobalAddresses_ProcessMetric w m =
     (case GlobalAddresses_List w (Project m) of
        Inl err \<Rightarrow> ([ApiList ''GlobalAddresses.List'' (Project m)], Some err)
      | Inr items \<Rightarrow>
          let metrics = countByLabel Status items;
              entries = rangeMap (shuffle w) metrics;
              vals = map (\<lambda>(s, c). c) entries;
              labels = map (\<lambda>(s, c). Some [(''status'', s)]) entries;
              (evs, err) = ReportLabeledTimeseries w m ''gce_global_addresses'' vals labels
          in ([ApiList ''GlobalAddresses.List'' (Project m),
               Log ''Num global addresses: %d'' [ArgInt (int (length items))]] @ evs, err))"

text \<open>
  The interface \<open>CustomGaugeMetric\<close> and its eight implementations; a method call
  through the interface dispatches on the implementing type.
\<close>

datatype CustomGaugeMetric =
    FirewallRules
  | TargetPools
  | ForwardingRules
  | GlobalForwardingRules
  | Addresses
  | GlobalAddresses
  | Networks
  | Routes

fun metricDescription :: "CustomGaugeMetric \<Rightarrow> MetricDescription" where
  "metricDescription FirewallRules = FirewallRules_MetricDescription"
| "metricDescription TargetPools = TargetPools_MetricDescription"
| "metricDescription ForwardingRules = ForwardingRules_MetricDescription"
| "metricDescription GlobalForwardingRules = GlobalForwardingRules_MetricDescription"
| "metricDescription Addresses = Addresses_MetricDescription"
| "metricDescription GlobalAddresses = GlobalAddresses_MetricDescription"
| "metricDescription Networks = Networks_MetricDescription"
| "metricDescription Routes = Routes_MetricDescription"

fun ProcessMetric ::
  "CustomGaugeMetric \<Rightarrow> pushWorld \<Rightarrow> Monitor \<Rightarrow> event list \<times> error option" where
  "ProcessMetric FirewallRules w m = FirewallRules_ProcessMetric w m"
| "ProcessMetric TargetPools w m = TargetPools_ProcessMetric w m"
| "ProcessMetric ForwardingRules w m = ForwardingRules_ProcessMetric w m"
| "ProcessMetric GlobalForwardingRules w m = GlobalForwardingRules_ProcessMetric w m"
| "ProcessMetric Addresses w m = Addresses_ProcessMetric w m"
| "ProcessMetric GlobalAddresses w m = GlobalAddresses_ProcessMetric w m"
| "ProcessMetric Networks w m = Networks_ProcessMetric w m"
| "ProcessMetric Routes w m = Routes_ProcessMetric w m"

definition customMetrics :: "CustomGaugeMetric list" where
  "customMetrics =
     [FirewallRules, TargetPools, ForwardingRules, GlobalForwardingRules, Addresses,
      GlobalAddresses, Networks, Routes]"

text \<open>
  The registration loop of \<open>main\<close>
  (\<open>for _, m := range customMetrics { monitor.createMetricDescriptor(...) }\<close>): a fatal
  error inside the call ends the process, so the rest of the loop does not run.
\<close>

fun registerAll ::
  "pushWorld \<Rightarrow> Monitor \<Rightarrow> CustomGaugeMetric list \<Rightarrow> event list \<times> outcome" where
  "registerAll w m [] = ([], Running)"
| "registerAll w m (cm # cms) =
     (case createMetricDescriptor w m (metricDescription cm) of
        (evs, Exited) \<Rightarrow> (evs, Exited)
      | (evs, Running) \<Rightarrow>
          (case registerAll w m cms of (evs', oc) \<Rightarrow> (evs @ evs', oc)))"

text \<open>One pass of the body of the inner loop of \<open>main\<close>, for one metric.\<close>

definition processOne :: "pushWorld \<Rightarrow> Monitor \<Rightarrow> CustomGaugeMetric \<Rightarrow> event list" where
  "processOne w m cm =
     (case ProcessMetric cm w m of
        (evs, Some err) \<Rightarrow>
          evs @ [Log ''ERROR: Error processing metric %s. Err: %v''
                   [ArgStr (Name (metricDescription cm)), ArgErr (Some err)]]
      | (evs, None) \<Rightarrow> evs)"

fun processAll :: "pushWorld \<Rightarrow> Monitor \<Rightarrow> CustomGaugeMetric list \<Rightarrow> event list" where
  "processAll w m [] = []"
| "processAll w m (cm # cms) = processOne w m cm @ processAll w m cms"

fun scrapeLoop :: "Monitor \<Rightarrow> int \<Rightarrow> pushWorld list \<Rightarrow> event list" where
  "scrapeLoop m period [] = []"
| "scrapeLoop m period (w # ws) =
     Log ''INFO: Starting scrape loop.'' [] #
     processAll w m customMetrics @
     Sleep period # scrapeLoop m period ws"

text \<open>
  \<open>main\<close> of the interface-based variant: \<open>w0\<close> is the world at startup, \<open>ws\<close> the
  world at each observed cycle.
\<close>

definition main_iface :: "flags \<Rightarrow> pushWorld \<Rightarrow> pushWorld list \<Rightarrow> event list \<times> outcome" where
  "main_iface fl w0 ws =
     (if project fl = []
      then ([Fatal ''Error: Empty project. A project name must be specified.'' []], Exited)
      else
        case DefaultClient w0 of
          Some err \<Rightarrow> ([Fatal ''Error creating client: $v'' [ArgErr (Some err)]], Exited)
        | None \<Rightarrow>
        case compute_New w0 of
          Some err \<Rightarrow>
            ([Fatal ''Error creating compute service: %v'' [ArgErr (Some err)]], Exited)
        | None \<Rightarrow>
        case cloudmonitoring_New w0 of
          Some err \<Rightarrow>
            ([Fatal ''Error creating monitoring service: %v'' [ArgErr (Some err)]], Exited)
        | None \<Rightarrow>
          let monitor = \<lparr>Project = project fl\<rparr> in
          case registerAll w0 monitor customMetrics of
            (evs, Exited) \<Rightarrow> (evs, Exited)
          | (evs, Running) \<Rightarrow> (evs @ scrapeLoop monitor (scrapePeriod fl) ws, Running))"

subsection \<open>The push variant under monitoring/gce\<close>

definition metricDescriptions :: "MetricDescription list" where
  "metricDescriptions =
     [\<lparr>Name = ''gce_firewall_rules'',
       Description = ''Count of firewall rules in the project, labeled by network'',
       Labels = [''network'']\<rparr>,
      \<lparr>Name = ''gce_target_pools'',
       Description = ''Count of target pools in the project'',
       Labels = []\<rparr>,
      \<lparr>Name = ''gce_forwarding_rules'',
       Description = ''Count of forwarding rules in the project'',
       Labels = []\<rparr>,
      \<lparr>Name = ''gce_ip_addresses'',
       Description = ''Count of external IP addresses in the project, labeled by status'',
       Labels = [''status'']\<rparr>,
      \<lparr>Name = ''gce_networks'',
       Description = ''Count of networks in the project'',
       Labels = [''network'']\<rparr>,
      \<lparr>Name = ''gce_routes'',
       Description = ''Count of routes in the project'',
       Labels = [''network'']\<rparr>]"

text \<open>The descriptor built in the body of the loop of \<open>CreateMetricDescriptors\<close>.\<close>

definition doubleDescriptor :: "Monitor \<Rightarrow> MetricDescription \<Rightarrow> MetricDescriptor" where
  "doubleDescriptor m metric =
     \<lparr>mdProject = Project m,
      mdName = customName (Name metric),
      mdDescription = Description metric,
      TypeDescriptor = \<lparr>MetricType = ''gauge'', ValueType = ''double''\<rparr>,
      mdLabels = (if length (Labels metric) \<noteq> 0 then labelDescriptors (Labels metric) else [])\<rparr>"

fun CreateMetricDescriptors ::
  "pushWorld \<Rightarrow> Monitor \<Rightarrow> MetricDescription list \<Rightarrow> event list \<times> outcome" where
  "CreateMetricDescriptors w m [] = ([], Running)"
| "CreateMetricDescriptors w m (metric # descs) =
     (let md = doubleDescriptor m metric in
      case MetricDescriptors_Create w (Project m) md of
        Some err \<Rightarrow>
          ([CreateCall (Project m) md,
            Fatal ''Error creating firewall metric: %v'' [ArgErr (Some err)]], Exited)
      | None \<Rightarrow>
          (case CreateMetricDescriptors w m descs of
             (evs, oc) \<Rightarrow>
               (CreateCall (Project m) md # Log ''Created metric: %s\<newline>'' [ArgResp] # evs,
                oc)))"

definition reportLabeledTimeseries ::
  "pushWorld \<Rightarrow> Monitor \<Rightarrow> string \<Rightarrow> real list \<Rightarrow> string gomap option list \<Rightarrow>
     event list \<times> error option" where
  "reportLabeledTimeseries w m name vals labels =
     (let points =
            map (\<lambda>(i, val).
                  \<lparr>Point = \<lparr>Int64Value = None, DoubleValue = Some val,
                            Start = nowTime w, End = nowTime w\<rparr>,
                   TimeseriesDesc =
                     \<lparr>Metric = customName name, tsProject = Project m,
                      tsLabels = (if length labels > i then fixLabels (shuffle w) (labels ! i)
                                  else None)\<rparr>\<rparr>)
              (enumerate 0 vals);
          req = \<lparr>Timeseries = points\<rparr>;
          err = Timeseries_Write w (Project m) req
      in ([WriteCall (Project m) req,
           Log ''Resp: %v\<newline>Err: %v\<newline>'' [ArgResp, ArgErr err]], err))"

definition reportTimeseries ::
  "pushWorld \<Rightarrow> Monitor \<Rightarrow> string \<Rightarrow> real \<Rightarrow> event list \<times> error option" where
  "reportTimeseries w m name val = reportLabeledTimeseries w m name [val] []"

text \<open>
  The tail shared by the six \<open>Process...\<close> methods:
  \<open>if err := ...; err != nil { log.Printf("Err: %v\n", err) }\<close>.
\<close>

definition logErr :: "event list \<times> error option \<Rightarrow> event list" where
  "logErr r =
     (case r of
        (evs, Some err) \<Rightarrow> evs @ [Log ''Err: %v\<newline>'' [ArgErr (Some err)]]
      | (evs, None) \<Rightarrow> evs)"

definition ProcessFirewallRules :: "pushWorld \<Rightarrow> Monitor \<Rightarrow> event list" where
  "ProcessFirewallRules w m =
     (case Firewalls_List w (Project m) of
        Inl err \<Rightarrow>
          [ApiList ''Firewalls.List'' (Project m),
           Log ''ERROR: Listing firewall: %v\<newline>'' [ArgErr (Some err)]]
      | Inr items \<Rightarrow>
          let metrics = countByLabel Network items;
              entries = rangeMap (shuffle w) metrics;
              vals = map (\<lambda>(s, c). real_of_int c) entries;
              labels = map (\<lambda>(s, c). Some [(''network'', s)]) entries
          in [ApiList ''Firewalls.List'' (Project m),
              Log ''Num firewalls: %d'' [ArgInt (int (length items))]] @
             logErr (reportLabeledTimeseries w m ''gce_firewall_rules'' vals labels))"

definition ProcessTargetPools :: "pushWorld \<Rightarrow> Monitor \<Rightarrow> event list" where
  "ProcessTargetPools w m =
     (case TargetPools_AggregatedList w (Project m) of
        Inl err \<Rightarrow>
          [ApiList ''TargetPools.AggregatedList'' (Project m),
           Log ''ERROR: Listing target pools: %v\<newline>'' [ArgErr (Some err)]]
      | Inr items \<Rightarrow>
          [ApiList ''TargetPools.AggregatedList'' (Project m),
           Log ''Num target pools: %d'' [ArgInt (int (length items))]] @
          logErr (reportTimeseries w m ''gce_target_pools'' (real (length items))))"

definition ProcessForwardingRules :: "pushWorld \<Rightarrow> Monitor \<Rightarrow> event list" where
  "ProcessForwardingRules w m =
     (case GlobalForwardingRules_List w (Project m) of
        Inl err \<Rightarrow>
          [ApiList ''GlobalForwardingRules.List'' (Project m),
           Log ''ERROR: Listing forwarding rules: %v\<newline>'' [ArgErr (Some err)]]
      | Inr items \<Rightarrow>
          [ApiList ''GlobalForwardingRules.List'' (Project m),
           Log ''Num forwarding rules: %d'' [ArgInt (int (length items))]] @
          logErr (reportTimeseries w m ''gce_forwarding_rules'' (real (length items))))"

definition ProcessNetworks :: "pushWorld \<Rightarrow> Monitor \<Rightarrow> event list" where
  "ProcessNetworks w m =
     (case Networks_List w (Project m) of
        Inl err \<Rightarrow>
          [ApiList ''Networks.List'' (Project m),
           Log ''ERROR: Listing Networks: %v\<newline>'' [ArgErr (Some err)]]
      | Inr items \<Rightarrow>
          [ApiList ''Networks.List'' (Project m),
           Log ''Num networks: %d'' [ArgInt (int (length items))]] @
          logErr (reportTimeseries w m ''gce_networks'' (real (length items))))"

definition ProcessRoutes :: "pushWorld \<Rightarrow> Monitor \<Rightarrow> event list" where
  "ProcessRoutes w m =
     (case Routes_List w (Project m) of
        Inl err \<Rightarrow>
          [ApiList ''Routes.List'' (Project m),
           Log ''ERROR: Listing routes: %v\<newline>'' [ArgErr (Some err)]]
      | Inr items \<Rightarrow>
          [ApiList ''Routes.List'' (Project m),
           Log ''Num routes: %d'' [ArgInt (int (length items))]] @
          logErr (reportTimeseries w m ''gce_routes'' (real (length items))))"

definition ProcessIPAddresses :: "pushWorld \<Rightarrow> Monitor \<Rightarrow> event list" where
  "ProcessIPAddresses w m =
     (case GlobalAddresses_List w (Project m) of
        Inl err \<Rightarrow>
          [ApiList ''GlobalAddresses.List'' (Project m),
           Log ''ERROR: Listing addresses: %v\<newline>'' [ArgErr (Some err)]]
      | Inr items \<Rightarrow>
          let metrics = countByLabel Status items;
              entries = rangeMap (shuffle w) metrics;
              vals = map (\<lambda>(s, c). real_of_int c) entries;
              labels = map (\<lambda>(s, c). Some [(''status'', s)]) entries
          in [ApiList ''GlobalAddresses.List'' (Project m),
              Log ''Num addresses: %d'' [ArgInt (int (length items))]] @
             logErr (reportLabeledTimeseries w m ''gce_ip_addresses'' vals labels))"

fun gceLoop :: "Monitor \<Rightarrow> int \<Rightarrow> pushWorld list \<Rightarrow> event list" where
  "gceLoop m period [] = []"
| "gceLoop m period (w # ws) =
     Log ''INFO: Starting scrape loop.'' [] #
     ProcessFirewallRules w m @
     ProcessIPAddresses w m @
     ProcessForwardingRules w m @
     ProcessNetworks w m @
     ProcessRoutes w m @
     ProcessTargetPools w m @
     Sleep period # gceLoop m period ws"

definition main_gce :: "flags \<Rightarrow> pushWorld \<Rightarrow> pushWorld list \<Rightarrow> event list \<times> outcome" where
  "main_gce fl w0 ws =
     (if project fl = []
      then ([Fatal ''Error: Empty project. A project name must be specified.'' []], Exited)
      else
        case DefaultClient w0 of
          Some err \<Rightarrow> ([Fatal ''Error creating client: $v'' [ArgErr (Some err)]], Exited)
        | None \<Rightarrow>
        case compute_New w0 of
          Some err \<Rightarrow>
            ([Fatal ''Error creating compute service: %v'' [ArgErr (Some err)]], Exited)
        | None \<Rightarrow>
        case cloudmonitoring_New w0 of
          Some err \<Rightarrow>
            ([Fatal ''Error creating monitoring service: %v'' [ArgErr (Some err)]], Exited)
        | None \<Rightarrow>
          let monitor = \<lparr>Project = project fl\<rparr> in
          case CreateMetricDescriptors w0 monitor metricDescriptions of
            (evs, Exited) \<Rightarrow> (evs, Exited)
          | (evs, Running) \<Rightarrow> (evs @ gceLoop monitor (scrapePeriod fl) ws, Running))"

subsection \<open>Reading a trace\<close>

text \<open>
  The observations a trace carries: the points of every write request sent to the push
  sink, the gauge values set in the pull variant, and the write requests themselves.
\<close>

fun pointsOf :: "event \<Rightarrow> TimeseriesPoint list" where
  "pointsOf (WriteCall p req) = Timeseries req"
| "pointsOf e = []"

definition pointsWritten :: "event list \<Rightarrow> TimeseriesPoint list" where
  "pointsWritten evs = concat (map pointsOf evs)"

fun isWriteCall :: "event \<Rightarrow> bool" where
  "isWriteCall (WriteCall p req) = True"
| "isWriteCall e = False"

fun isCreateCall :: "event \<Rightarrow> bool" where
  "isCreateCall (CreateCall p md) = True"
| "isCreateCall e = False"

fun isApiList :: "event \<Rightarrow> bool" where
  "isApiList (ApiList c p) = True"
| "isApiList e = False"

fun isFatal :: "event \<Rightarrow> bool" where
  "isFatal (Fatal f args) = True"
| "isFatal e = False"

fun isSleep :: "event \<Rightarrow> bool" where
  "isSleep (Sleep d) = True"
| "isSleep e = False"



text \<open>
  One observation as the sink sees it: metric name, label map, int64 value, double value.
\<close>

definition observation ::
  "TimeseriesPoint \<Rightarrow> string \<times> string gomap option \<times> int option \<times> real option" where
  "observation p =
     (Metric (TimeseriesDesc p), tsLabels (TimeseriesDesc p),
      Int64Value (Point p), DoubleValue (Point p))"

fun isExec :: "event \<Rightarrow> bool" where
  "isExec (Exec c args) = True"
| "isExec e = False"
















text \<open>The label keys a point carries (none when its label map is nil).\<close>

definition labelKeys :: "TimeseriesPoint \<Rightarrow> string list" where
  "labelKeys p = (case tsLabels (TimeseriesDesc p) of None \<Rightarrow> [] | Some lm \<Rightarrow> map fst lm)"

subsection \<open>Sample worlds\<close>

text \<open>
  A project with three firewall rules on two networks and nothing else, whose route
  listing fails; every map is ranged over in reverse. The theorems below are
  instantiated on it.
\<close>

definition sampleWorld :: pushWorld where
  "sampleWorld =
     \<lparr>DefaultClient = None,
      compute_New = None,
      cloudmonitoring_New = None,
      Firewalls_List =
        (\<lambda>p. Inr [\<lparr>Network = ''a''\<rparr>, \<lparr>Network = ''a''\<rparr>, \<lparr>Network = ''b''\<rparr>]),
      TargetPools_AggregatedList = (\<lambda>p. Inr []),
      ForwardingRules_AggregatedList = (\<lambda>p. Inr []),
      GlobalForwardingRules_List = (\<lambda>p. Inr []),
      Addresses_AggregatedList = (\<lambda>p. Inr []),
      GlobalAddresses_List = (\<lambda>p. Inr []),
      Networks_List = (\<lambda>p. Inr [(), ()]),
      Routes_List = (\<lambda>p. Inl (Error ''transport error'')),
      MetricDescriptors_Create = (\<lambda>p md. None),
      Timeseries_Write = (\<lambda>p req. None),
      nowTime = ''2016-01-01T00:00:00Z'',
      shuffle = rev\<rparr>"

definition samplePullWorld :: pullWorld where
  "samplePullWorld =
     \<lparr>gcloud =
        (\<lambda>args. if args ! 2 = ''routes'' then (''ERROR: transport error'', Some (Error ''exit status 1''))
                 else (''[]'', None)),
      unmarshalFirewalls =
        (\<lambda>s. Inr [\<lparr>Network = ''a''\<rparr>, \<lparr>Network = ''a''\<rparr>, \<lparr>Network = ''b''\<rparr>]),
      unmarshalTargetPools = (\<lambda>s. Inr []),
      unmarshalForwardingRules = (\<lambda>s. Inr []),
      unmarshalAddresses = (\<lambda>s. Inr []),
      unmarshalNetworks = (\<lambda>s. Inr [(), ()]),
      unmarshalRoutes = (\<lambda>s. Inr []),
      pullShuffle = rev\<rparr>"

text \<open>
  The same world, except that the sink rejects the descriptor of gce_routes; and a
  command line naming the project demo.
\<close>

definition rejectingWorld :: pushWorld where
  "rejectingWorld =
     sampleWorld\<lparr>MetricDescriptors_Create :=
       (\<lambda>p md. if mdName md = customName ''gce_routes'' then Some (Error ''forbidden'')
                else None)\<rparr>"

definition sampleFlags :: flags where
  "sampleFlags = \<lparr>project = ''demo'', port = 8400, scrapePeriod = 300000000000\<rparr>"

section \<open>Properties\<close>

subsection \<open>The counting loop\<close>

lemma countStep_distinct:
  "distinct (map fst m) \<Longrightarrow> distinct (map fst (countStep sel a m))"
  by (simp add: countStep_def mapAssign_def distinct_update)

lemma countStep_lookup:
  "mapIndex 0 (countStep sel a m) k = mapIndex 0 m k + (if sel a = k then 1 else 0)"
  by (simp add: countStep_def mapAssign_def mapIndex_def update_conv')

lemma countStep_dom:
  "fst ` set (countStep sel a m) = insert (sel a) (fst ` set m)"
  by (simp add: countStep_def mapAssign_def dom_update)



lemma fold_countStep_distinct:
  "distinct (map fst m) \<Longrightarrow> distinct (map fst (fold (countStep sel) xs m))"
  by (induction xs arbitrary: m) (simp_all add: countStep_distinct)


lemma fold_countStep_lookup:
  "mapIndex 0 (fold (countStep sel) xs m) k =
     mapIndex 0 m k + int (length (filter (\<lambda>a. sel a = k) xs))"
  by (induction xs arbitrary: m) (simp_all add: countStep_lookup)

lemma fold_countStep_dom:
  "fst ` set (fold (countStep sel) xs m) = fst ` set m \<union> sel ` set xs"
  by (induction xs arbitrary: m) (auto simp: countStep_dom)

lemma countByLabel_distinct: "distinct (map fst (countByLabel sel xs))"
  by (simp add: countByLabel_def fold_countStep_distinct)

lemma countByLabel_keys: "fst ` set (countByLabel sel xs) = sel ` set xs"
  by (simp add: countByLabel_def fold_countStep_dom)

lemma countByLabel_map_of:
  "map_of (countByLabel sel xs) k =
     (if k \<in> sel ` set xs then Some (int (length (filter (\<lambda>a. sel a = k) xs))) else None)"
proof (cases "k \<in> sel ` set xs")
  case True
  then have "k \<in> fst ` set (countByLabel sel xs)"
    by (simp add: countByLabel_keys)
  then obtain c where c: "map_of (countByLabel sel xs) k = Some c"
    by (metis domD dom_map_of_conv_image_fst)
  have "mapIndex 0 (countByLabel sel xs) k = int (length (filter (\<lambda>a. sel a = k) xs))"
    by (simp add: countByLabel_def fold_countStep_lookup) (simp add: mapIndex_def)
  with c True show ?thesis by (simp add: mapIndex_def)
next
  case False
  then have "k \<notin> fst ` set (countByLabel sel xs)"
    by (simp add: countByLabel_keys)
  then have "map_of (countByLabel sel xs) k = None"
    by (simp add: map_of_eq_None_iff)
  with False show ?thesis by simp
qed


subsection \<open>Ranging over a map\<close>

lemma rangeMap_Nil: "rangeMap shf [] = []"
  by (simp add: rangeMap_def)

lemma entries_of_keys:
  "distinct (map fst m) \<Longrightarrow>
   concat (map (\<lambda>k. case map_of m k of None \<Rightarrow> [] | Some v \<Rightarrow> [(k, v)]) (map fst m)) = m"
proof -
  assume d: "distinct (map fst m)"
  have "map (\<lambda>k. case map_of m k of None \<Rightarrow> [] | Some v \<Rightarrow> [(k, v)]) (map fst m) =
        map (\<lambda>p. [p]) m"
    unfolding map_map
  proof (rule map_cong [OF refl])
    fix p assume "p \<in> set m"
    with d have "map_of m (fst p) = Some (snd p)" by simp
    then show "((\<lambda>k. case map_of m k of None \<Rightarrow> [] | Some v \<Rightarrow> [(k, v)]) \<circ> fst) p = [p]"
      by simp
  qed
  then have "concat (map (\<lambda>k. case map_of m k of None \<Rightarrow> [] | Some v \<Rightarrow> [(k, v)]) (map fst m)) =
             concat (map (\<lambda>p. [p]) m)"
    by (rule arg_cong)
  also have "\<dots> = m" by (induction m) simp_all
  finally show ?thesis .
qed

lemma sum_list_map_mset_cong:
  "mset zs = mset ks \<Longrightarrow> sum_list (map mset (map g zs)) = sum_list (map mset (map g ks))"
proof -
  assume eq: "mset zs = mset ks"
  have "sum_list (map mset (map g zs)) = sum_mset (image_mset (\<lambda>z. mset (g z)) (mset zs))"
    by (simp add: sum_mset_sum_list [symmetric] comp_def)
  also have "\<dots> = sum_mset (image_mset (\<lambda>z. mset (g z)) (mset ks))"
    by (simp only: eq)
  also have "\<dots> = sum_list (map mset (map g ks))"
    by (simp add: sum_mset_sum_list [symmetric] comp_def)
  finally show ?thesis .
qed

lemma rangeMap_mset:
  assumes "rangeOrder shf" and "distinct (map fst m)"
  shows "mset (rangeMap shf m) = mset m"
proof -
  from assms(1) have "mset (shf (map fst m)) = mset (map fst m)"
    by (simp add: rangeOrder_def)
  then have "mset (rangeMap shf m) =
             mset (concat (map (\<lambda>k. case map_of m k of None \<Rightarrow> [] | Some v \<Rightarrow> [(k, v)])
                     (map fst m)))"
    unfolding rangeMap_def mset_concat by (rule sum_list_map_mset_cong)
  with assms(2) show ?thesis by (simp only: entries_of_keys)
qed

lemma rangeMap_set:
  "rangeOrder shf \<Longrightarrow> distinct (map fst m) \<Longrightarrow> set (rangeMap shf m) = set m"
  by (metis rangeMap_mset mset_eq_setD)

lemma rangeMap_length:
  "rangeOrder shf \<Longrightarrow> distinct (map fst m) \<Longrightarrow> length (rangeMap shf m) = length m"
  by (metis rangeMap_mset mset_eq_length)

lemma rangeMap_distinct:
  "rangeOrder shf \<Longrightarrow> distinct (map fst m) \<Longrightarrow> distinct (map fst (rangeMap shf m))"
proof -
  assume a: "rangeOrder shf" "distinct (map fst m)"
  then have "mset (map fst (rangeMap shf m)) = mset (map fst m)"
    by (simp add: rangeMap_mset)
  with a(2) show ?thesis by (metis mset_eq_imp_distinct_iff)
qed

lemma rangeMap_single: "rangeOrder shf \<Longrightarrow> rangeMap shf [(k, v)] = [(k, v)]"
proof -
  assume "rangeOrder shf"
  then have "mset (rangeMap shf [(k, v)]) = mset [(k, v)]"
    by (simp add: rangeMap_mset)
  then show ?thesis by (metis mset_single_iff_right mset.simps(1,2) mset_zero_iff)
qed

subsection \<open>Label translation and the points of a report\<close>

lemma customName_inject: "(customName a = customName b) = (a = b)"
  by (simp add: customName_def)

lemma mapAssign_keys: "fst ` set (mapAssign k v m) = insert k (fst ` set m)"
  by (simp add: mapAssign_def dom_update)

lemma fold_munge_keys:
  "fst ` set (fold (\<lambda>(l, v) munged. mapAssign (customName l) v munged) es acc) =
     fst ` set acc \<union> customName ` fst ` set es"
  by (induction es arbitrary: acc) (auto simp: mapAssign_keys split_beta)

lemma fold_munge_distinct:
  "distinct (map fst acc) \<Longrightarrow>
   distinct (map fst (fold (\<lambda>(l, v) munged. mapAssign (customName l) v munged) es acc))"
  by (induction es arbitrary: acc) (auto simp: mapAssign_def distinct_update)

lemma fold_munge_lookup:
  "distinct (map fst es) \<Longrightarrow>
   map_of (fold (\<lambda>(l, v) munged. mapAssign (customName l) v munged) es acc) (customName l) =
     (case map_of es l of None \<Rightarrow> map_of acc (customName l) | Some v \<Rightarrow> Some v)"
proof (induction es arbitrary: acc)
  case Nil
  then show ?case by simp
next
  case (Cons e es)
  obtain l' v' where e: "e = (l', v')" by (cases e)
  from Cons.prems e have notin: "l' \<notin> fst ` set es" and d: "distinct (map fst es)"
    by auto
  from notin have none: "map_of es l' = None"
    by (simp add: map_of_eq_None_iff)
  show ?case
    using Cons.IH [OF d] e none
    by (auto simp: mapAssign_def update_conv' customName_inject split: option.split)
qed

lemma fixLabels_Some:
  assumes "rangeOrder shf" and "distinct (map fst lm)"
  shows "\<exists>munged. fixLabels shf (Some lm) = Some munged \<and>
           distinct (map fst munged) \<and>
           fst ` set munged = customName ` fst ` set lm \<and>
           (\<forall>l. map_of munged (customName l) = map_of lm l)"
proof -
  let ?es = "rangeMap shf lm"
  let ?mg = "fold (\<lambda>(l, v) munged. mapAssign (customName l) v munged) ?es []"
  have d: "distinct (map fst ?es)" using assms by (rule rangeMap_distinct)
  have s: "set ?es = set lm" using assms by (rule rangeMap_set)
  have m: "map_of ?es = map_of lm"
    using d assms(2) s by (simp add: map_of_inject_set)
  have "fixLabels shf (Some lm) = Some ?mg" by (simp add: fixLabels_def)
  moreover have "distinct (map fst ?mg)" by (simp add: fold_munge_distinct)
  moreover have "fst ` set ?mg = customName ` fst ` set lm"
    by (simp add: fold_munge_keys s)
  moreover have "map_of ?mg (customName l) = map_of lm l" for l
    using fold_munge_lookup [OF d, of "[]" l] by (simp add: m split: option.split)
  ultimately show ?thesis by blast
qed

lemma fixLabels_single:
  "rangeOrder shf \<Longrightarrow> fixLabels shf (Some [(l, v)]) = Some [(customName l, v)]"
  by (simp add: fixLabels_def rangeMap_single mapAssign_def)

lemma labelDescriptors_keys: "map Key (labelDescriptors ls) = map customName ls"
  by (simp add: labelDescriptors_def comp_def)

lemma int64Descriptor_keys:
  "map Key (mdLabels (int64Descriptor m metric)) = map customName (Labels metric)"
  by (simp add: int64Descriptor_def labelDescriptors_keys)

lemma doubleDescriptor_keys:
  "map Key (mdLabels (doubleDescriptor m metric)) = map customName (Labels metric)"
  by (simp add: doubleDescriptor_def labelDescriptors_keys)

lemma ReportLabeledTimeseries_points:
  "length labels = length vals \<Longrightarrow>
   pointsWritten (fst (ReportLabeledTimeseries w m name vals labels)) =
     map (\<lambda>(val, lab).
            \<lparr>Point = \<lparr>Int64Value = Some val, DoubleValue = None,
                      Start = nowTime w, End = nowTime w\<rparr>,
             TimeseriesDesc = \<lparr>Metric = customName name, tsProject = Project m,
                               tsLabels = fixLabels (shuffle w) lab\<rparr>\<rparr>)
       (zip vals labels)"
  by (cases "vals = []")
     (auto simp: ReportLabeledTimeseries_def pointsWritten_def Let_def nth_enumerate_eq
           intro!: nth_equalityI)

lemma reportLabeledTimeseries_points:
  "length labels = length vals \<Longrightarrow>
   pointsWritten (fst (reportLabeledTimeseries w m name vals labels)) =
     map (\<lambda>(val, lab).
            \<lparr>Point = \<lparr>Int64Value = None, DoubleValue = Some val,
                      Start = nowTime w, End = nowTime w\<rparr>,
             TimeseriesDesc = \<lparr>Metric = customName name, tsProject = Project m,
                               tsLabels = fixLabels (shuffle w) lab\<rparr>\<rparr>)
       (zip vals labels)"
  by (auto simp: reportLabeledTimeseries_def pointsWritten_def Let_def nth_enumerate_eq
           intro!: nth_equalityI)

lemma ReportTimeseries_points:
  "pointsWritten (fst (ReportTimeseries w m name val)) =
     [\<lparr>Point = \<lparr>Int64Value = Some val, DoubleValue = None,
                Start = nowTime w, End = nowTime w\<rparr>,
       TimeseriesDesc = \<lparr>Metric = customName name, tsProject = Project m, tsLabels = None\<rparr>\<rparr>]"
  by (simp add: ReportTimeseries_def ReportLabeledTimeseries_def pointsWritten_def Let_def
        enumerate_eq_zip)


lemma pointsWritten_Nil: "pointsWritten [] = []"
  by (simp add: pointsWritten_def)

lemma pointsWritten_Cons: "pointsWritten (e # evs) = pointsOf e @ pointsWritten evs"
  by (simp add: pointsWritten_def)

lemma pointsWritten_append: "pointsWritten (xs @ ys) = pointsWritten xs @ pointsWritten ys"
  by (simp add: pointsWritten_def)

lemma pointsWritten_logErr: "pointsWritten (logErr r) = pointsWritten (fst r)"
  by (cases r) (simp add: logErr_def pointsWritten_append pointsWritten_Cons pointsWritten_Nil
       split: option.split)

lemma rangeOrder_rev: "rangeOrder rev"
  by (simp add: rangeOrder_def)

lemma FirewallRules_ProcessMetric_points:
  assumes "rangeOrder (shuffle w)" and "Firewalls_List w (Project m) = Inr items"
  shows "pointsWritten (fst (FirewallRules_ProcessMetric w m)) =
           map (\<lambda>(s, c).
                  \<lparr>Point = \<lparr>Int64Value = Some c, DoubleValue = None,
                            Start = nowTime w, End = nowTime w\<rparr>,
                   TimeseriesDesc =
                     \<lparr>Metric = customName ''gce_firewall_rules'', tsProject = Project m,
                      tsLabels = Some [(customName ''network'', s)]\<rparr>\<rparr>)
             (rangeMap (shuffle w) (countByLabel Network items))"
  using assms
  by (simp add: FirewallRules_ProcessMetric_def Let_def split_beta pointsWritten_append
        pointsWritten_Cons pointsWritten_Nil ReportLabeledTimeseries_points zip_map_map
        zip_same_conv_map fixLabels_single)

lemma ProcessFirewallRules_points:
  assumes "rangeOrder (shuffle w)" and "Firewalls_List w (Project m) = Inr items"
  shows "pointsWritten (ProcessFirewallRules w m) =
           map (\<lambda>(s, c).
                  \<lparr>Point = \<lparr>Int64Value = None, DoubleValue = Some (real_of_int c),
                            Start = nowTime w, End = nowTime w\<rparr>,
                   TimeseriesDesc =
                     \<lparr>Metric = customName ''gce_firewall_rules'', tsProject = Project m,
                      tsLabels = Some [(customName ''network'', s)]\<rparr>\<rparr>)
             (rangeMap (shuffle w) (countByLabel Network items))"
  using assms
  by (simp add: ProcessFirewallRules_def Let_def split_beta pointsWritten_append
        pointsWritten_Cons pointsWritten_Nil pointsWritten_logErr reportLabeledTimeseries_points zip_map_map
        zip_same_conv_map fixLabels_single)

lemma sample_counts:
  "countByLabel Network [\<lparr>Network = ''a''\<rparr>, \<lparr>Network = ''a''\<rparr>, \<lparr>Network = ''b''\<rparr>] =
     [(''a'', 2), (''b'', 1)]"
  by (simp add: countByLabel_def countStep_def mapAssign_def mapIndex_def)

lemma ReportLabeledTimeseries_writes:
  "filter isWriteCall (fst (ReportLabeledTimeseries w m name vals labels)) =
     (if vals = [] then []
      else [WriteCall (Project m)
              \<lparr>Timeseries = pointsWritten (fst (ReportLabeledTimeseries w m name vals labels))\<rparr>])"
  by (simp add: ReportLabeledTimeseries_def Let_def pointsWritten_def)

lemma ReportLabeledTimeseries_single_label_keys:
  assumes "rangeOrder (shuffle w)"
  shows "list_all (\<lambda>p. labelKeys p = [customName k])
           (pointsWritten (fst (ReportLabeledTimeseries w m name
              (map (\<lambda>(s, c). c) es) (map (\<lambda>(s, c). Some [(k, s)]) es))))"
  using assms
  by (simp add: ReportLabeledTimeseries_points zip_map_map zip_same_conv_map fixLabels_single
        list_all_iff labelKeys_def split_beta)

lemma reportLabeledTimeseries_single_label_keys:
  assumes "rangeOrder (shuffle w)"
  shows "list_all (\<lambda>p. labelKeys p = [customName k])
           (pointsWritten (fst (reportLabeledTimeseries w m name
              (map (\<lambda>(s, c). real_of_int c) es) (map (\<lambda>(s, c). Some [(k, s)]) es))))"
  using assms
  by (simp add: reportLabeledTimeseries_points zip_map_map zip_same_conv_map fixLabels_single
        list_all_iff labelKeys_def split_beta)

lemma ReportTimeseries_label_keys:
  "list_all (\<lambda>p. labelKeys p = []) (pointsWritten (fst (ReportTimeseries w m name val)))"
  by (simp add: ReportTimeseries_points labelKeys_def)

lemma ProcessMetric_label_keys:
  assumes "rangeOrder (shuffle w)"
  shows "list_all (\<lambda>p. set (labelKeys p) \<subseteq>
                        set (map Key (mdLabels (int64Descriptor m (metricDescription cm)))))
           (pointsWritten (fst (ProcessMetric cm w m)))"
proof (cases cm)
  case FirewallRules
  have "list_all (\<lambda>p. labelKeys p = [customName ''network''])
          (pointsWritten (fst (FirewallRules_ProcessMetric w m)))"
    using ReportLabeledTimeseries_single_label_keys [OF assms]
    by (simp add: FirewallRules_ProcessMetric_def Let_def split_beta pointsWritten_append
          pointsWritten_Cons pointsWritten_Nil split: sum.split)
  then show ?thesis
    using FirewallRules
    by (simp add: list_all_iff int64Descriptor_keys FirewallRules_MetricDescription_def)
next
  case TargetPools
  have "list_all (\<lambda>p. labelKeys p = [])
          (pointsWritten (fst (TargetPools_ProcessMetric w m)))"
    using ReportTimeseries_label_keys
    by (simp add: TargetPools_ProcessMetric_def Let_def split_beta pointsWritten_append
          pointsWritten_Cons pointsWritten_Nil split: sum.split)
  then show ?thesis using TargetPools by (simp add: list_all_iff)
next
  case ForwardingRules
  have "list_all (\<lambda>p. labelKeys p = [])
          (pointsWritten (fst (ForwardingRules_ProcessMetric w m)))"
    using ReportTimeseries_label_keys
    by (simp add: ForwardingRules_ProcessMetric_def Let_def split_beta pointsWritten_append
          pointsWritten_Cons pointsWritten_Nil split: sum.split)
  then show ?thesis using ForwardingRules by (simp add: list_all_iff)
next
  case GlobalForwardingRules
  have "list_all (\<lambda>p. labelKeys p = [])
          (pointsWritten (fst (GlobalForwardingRules_ProcessMetric w m)))"
    using ReportTimeseries_label_keys
    by (simp add: GlobalForwardingRules_ProcessMetric_def Let_def split_beta
          pointsWritten_append pointsWritten_Cons pointsWritten_Nil split: sum.split)
  then show ?thesis using GlobalForwardingRules by (simp add: list_all_iff)
next
  case Addresses
  have "list_all (\<lambda>p. labelKeys p = [customName ''status''])
          (pointsWritten (fst (Addresses_ProcessMetric w m)))"
    using ReportLabeledTimeseries_single_label_keys [OF assms]
    by (simp add: Addresses_ProcessMetric_def Let_def split_beta pointsWritten_append
          pointsWritten_Cons pointsWritten_Nil split: sum.split)
  then show ?thesis
    using Addresses
    by (simp add: list_all_iff int64Descriptor_keys Addresses_MetricDescription_def)
next
  case GlobalAddresses
  have "list_all (\<lambda>p. labelKeys p = [customName ''status''])
          (pointsWritten (fst (GlobalAddresses_ProcessMetric w m)))"
    using ReportLabeledTimeseries_single_label_keys [OF assms]
    by (simp add: GlobalAddresses_ProcessMetric_def Let_def split_beta pointsWritten_append
          pointsWritten_Cons pointsWritten_Nil split: sum.split)
  then show ?thesis
    using GlobalAddresses
    by (simp add: list_all_iff int64Descriptor_keys GlobalAddresses_MetricDescription_def)
next
  case Networks
  have "list_all (\<lambda>p. labelKeys p = [])
          (pointsWritten (fst (Networks_ProcessMetric w m)))"
    using ReportTimeseries_label_keys
    by (simp add: Networks_ProcessMetric_def Let_def split_beta pointsWritten_append
          pointsWritten_Cons pointsWritten_Nil split: sum.split)
  then show ?thesis using Networks by (simp add: list_all_iff)
next
  case Routes
  have "list_all (\<lambda>p. labelKeys p = [])
          (pointsWritten (fst (Routes_ProcessMetric w m)))"
    using ReportTimeseries_label_keys
    by (simp add: Routes_ProcessMetric_def Let_def split_beta pointsWritten_append
          pointsWritten_Cons pointsWritten_Nil split: sum.split)
  then show ?thesis using Routes by (simp add: list_all_iff)
qed

lemma ProcessFirewallRules_label_keys:
  assumes "rangeOrder (shuffle w)"
  shows "list_all (\<lambda>p. labelKeys p = map Key (mdLabels (doubleDescriptor m (metricDescriptions ! 0))))
           (pointsWritten (ProcessFirewallRules w m))"
  using reportLabeledTimeseries_single_label_keys [OF assms]
  by (simp add: ProcessFirewallRules_def Let_def pointsWritten_append pointsWritten_Cons
        pointsWritten_Nil pointsWritten_logErr doubleDescriptor_keys metricDescriptions_def
        split: sum.split)

lemma ProcessIPAddresses_label_keys:
  assumes "rangeOrder (shuffle w)"
  shows "list_all (\<lambda>p. labelKeys p = map Key (mdLabels (doubleDescriptor m (metricDescriptions ! 3))))
           (pointsWritten (ProcessIPAddresses w m))"
  using reportLabeledTimeseries_single_label_keys [OF assms]
  by (simp add: ProcessIPAddresses_def Let_def pointsWritten_append pointsWritten_Cons
        pointsWritten_Nil pointsWritten_logErr doubleDescriptor_keys metricDescriptions_def
        split: sum.split)

lemma ReportLabeledTimeseries_labels:
  "map (\<lambda>p. tsLabels (TimeseriesDesc p))
     (pointsWritten (fst (ReportLabeledTimeseries w m name vals labels))) =
   map (\<lambda>i. if i < length labels then fixLabels (shuffle w) (labels ! i) else None)
     [0..<length vals]"
  by (cases "vals = []")
     (auto simp: ReportLabeledTimeseries_def pointsWritten_def Let_def nth_enumerate_eq
           intro!: nth_equalityI)

lemma reportLabeledTimeseries_labels:
  "map (\<lambda>p. tsLabels (TimeseriesDesc p))
     (pointsWritten (fst (reportLabeledTimeseries w m name vals labels))) =
   map (\<lambda>i. if i < length labels then fixLabels (shuffle w) (labels ! i) else None)
     [0..<length vals]"
  by (auto simp: reportLabeledTimeseries_def pointsWritten_def Let_def nth_enumerate_eq
           intro!: nth_equalityI)

subsection \<open>What a cycle does to the outside\<close>

lemma ReportLabeledTimeseries_events:
  "filter isFatal (fst (ReportLabeledTimeseries w m name vals labels)) = [] \<and>
   filter isCreateCall (fst (ReportLabeledTimeseries w m name vals labels)) = [] \<and>
   filter isSleep (fst (ReportLabeledTimeseries w m name vals labels)) = [] \<and>
   filter isApiList (fst (ReportLabeledTimeseries w m name vals labels)) = []"
  by (simp add: ReportLabeledTimeseries_def Let_def)

lemma ReportTimeseries_events:
  "filter isFatal (fst (ReportTimeseries w m name val)) = [] \<and>
   filter isCreateCall (fst (ReportTimeseries w m name val)) = [] \<and>
   filter isSleep (fst (ReportTimeseries w m name val)) = [] \<and>
   filter isApiList (fst (ReportTimeseries w m name val)) = []"
  by (simp add: ReportTimeseries_def ReportLabeledTimeseries_events)

lemmas iface_process_defs =
  FirewallRules_ProcessMetric_def TargetPools_ProcessMetric_def
  ForwardingRules_ProcessMetric_def GlobalForwardingRules_ProcessMetric_def
  Addresses_ProcessMetric_def GlobalAddresses_ProcessMetric_def
  Networks_ProcessMetric_def Routes_ProcessMetric_def

lemma ProcessMetric_no_Fatal: "filter isFatal (fst (ProcessMetric cm w m)) = []"
  by (cases cm)
     (simp_all add: iface_process_defs Let_def split_beta ReportLabeledTimeseries_events
        ReportTimeseries_events split: sum.split)

lemma ProcessMetric_no_CreateCall: "filter isCreateCall (fst (ProcessMetric cm w m)) = []"
  by (cases cm)
     (simp_all add: iface_process_defs Let_def split_beta ReportLabeledTimeseries_events
        ReportTimeseries_events split: sum.split)

lemma ProcessMetric_no_Sleep: "filter isSleep (fst (ProcessMetric cm w m)) = []"
  by (cases cm)
     (simp_all add: iface_process_defs Let_def split_beta ReportLabeledTimeseries_events
        ReportTimeseries_events split: sum.split)

lemma ProcessMetric_one_ApiList: "length (filter isApiList (fst (ProcessMetric cm w m))) = 1"
  by (cases cm)
     (simp_all add: iface_process_defs Let_def split_beta ReportLabeledTimeseries_events
        ReportTimeseries_events split: sum.split)

lemma processOne_eq:
  "processOne w m cm =
     fst (ProcessMetric cm w m) @
     (case snd (ProcessMetric cm w m) of
        None \<Rightarrow> []
      | Some err \<Rightarrow>
          [Log ''ERROR: Error processing metric %s. Err: %v''
             [ArgStr (Name (metricDescription cm)), ArgErr (Some err)]])"
  by (cases "ProcessMetric cm w m") (simp add: processOne_def split: option.split)

lemma processOne_events:
  "filter isFatal (processOne w m cm) = [] \<and>
   filter isCreateCall (processOne w m cm) = [] \<and>
   filter isSleep (processOne w m cm) = [] \<and>
   length (filter isApiList (processOne w m cm)) = 1"
  by (simp add: processOne_eq ProcessMetric_no_Fatal ProcessMetric_no_CreateCall
        ProcessMetric_no_Sleep ProcessMetric_one_ApiList split: option.split)


lemma processAll_events:
  "filter isFatal (processAll w m cms) = [] \<and>
   filter isCreateCall (processAll w m cms) = [] \<and>
   filter isSleep (processAll w m cms) = [] \<and>
   length (filter isApiList (processAll w m cms)) = length cms"
  by (induction cms) (simp_all add: processOne_events)

lemma scrapeLoop_events:
  "filter isFatal (scrapeLoop m period ws) = [] \<and>
   filter isCreateCall (scrapeLoop m period ws) = [] \<and>
   length (filter isSleep (scrapeLoop m period ws)) = length ws \<and>
   length (filter isApiList (scrapeLoop m period ws)) = length customMetrics * length ws"
  by (induction ws) (simp_all add: processAll_events)








lemma reportLabeledTimeseries_events:
  "filter isFatal (fst (reportLabeledTimeseries w m name vals labels)) = [] \<and>
   filter isCreateCall (fst (reportLabeledTimeseries w m name vals labels)) = [] \<and>
   filter isSleep (fst (reportLabeledTimeseries w m name vals labels)) = [] \<and>
   filter isApiList (fst (reportLabeledTimeseries w m name vals labels)) = []"
  by (simp add: reportLabeledTimeseries_def Let_def)

lemma logErr_events:
  "filter isFatal (logErr r) = filter isFatal (fst r) \<and>
   filter isCreateCall (logErr r) = filter isCreateCall (fst r) \<and>
   filter isSleep (logErr r) = filter isSleep (fst r) \<and>
   filter isApiList (logErr r) = filter isApiList (fst r)"
  by (cases r) (simp add: logErr_def split: option.split)

lemma ProcessFirewallRules_events:
  "filter isFatal (ProcessFirewallRules w m) = [] \<and>
   filter isCreateCall (ProcessFirewallRules w m) = [] \<and>
   filter isSleep (ProcessFirewallRules w m) = [] \<and>
   length (filter isApiList (ProcessFirewallRules w m)) = 1"
  by (simp add: ProcessFirewallRules_def reportTimeseries_def Let_def logErr_events
        reportLabeledTimeseries_events split: sum.split)

lemma ProcessTargetPools_events:
  "filter isFatal (ProcessTargetPools w m) = [] \<and>
   filter isCreateCall (ProcessTargetPools w m) = [] \<and>
   filter isSleep (ProcessTargetPools w m) = [] \<and>
   length (filter isApiList (ProcessTargetPools w m)) = 1"
  by (simp add: ProcessTargetPools_def reportTimeseries_def Let_def logErr_events
        reportLabeledTimeseries_events split: sum.split)

lemma ProcessForwardingRules_events:
  "filter isFatal (ProcessForwardingRules w m) = [] \<and>
   filter isCreateCall (ProcessForwardingRules w m) = [] \<and>
   filter isSleep (ProcessForwardingRules w m) = [] \<and>
   length (filter isApiList (ProcessForwardingRules w m)) = 1"
  by (simp add: ProcessForwardingRules_def reportTimeseries_def Let_def logErr_events
        reportLabeledTimeseries_events split: sum.split)

lemma ProcessNetworks_events:
  "filter isFatal (ProcessNetworks w m) = [] \<and>
   filter isCreateCall (ProcessNetworks w m) = [] \<and>
   filter isSleep (ProcessNetworks w m) = [] \<and>
   length (filter isApiList (ProcessNetworks w m)) = 1"
  by (simp add: ProcessNetworks_def reportTimeseries_def Let_def logErr_events
        reportLabeledTimeseries_events split: sum.split)

lemma ProcessRoutes_events:
  "filter isFatal (ProcessRoutes w m) = [] \<and>
   filter isCreateCall (ProcessRoutes w m) = [] \<and>
   filter isSleep (ProcessRoutes w m) = [] \<and>
   length (filter isApiList (ProcessRoutes w m)) = 1"
  by (simp add: ProcessRoutes_def reportTimeseries_def Let_def logErr_events
        reportLabeledTimeseries_events split: sum.split)

lemma ProcessIPAddresses_events:
  "filter isFatal (ProcessIPAddresses w m) = [] \<and>
   filter isCreateCall (ProcessIPAddresses w m) = [] \<and>
   filter isSleep (ProcessIPAddresses w m) = [] \<and>
   length (filter isApiList (ProcessIPAddresses w m)) = 1"
  by (simp add: ProcessIPAddresses_def reportTimeseries_def Let_def logErr_events
        reportLabeledTimeseries_events split: sum.split)

lemma gceLoop_events:
  "filter isFatal (gceLoop m period ws) = [] \<and>
   filter isCreateCall (gceLoop m period ws) = [] \<and>
   length (filter isSleep (gceLoop m period ws)) = length ws \<and>
   length (filter isApiList (gceLoop m period ws)) = 6 * length ws"
  by (induction ws)
     (simp_all add: ProcessFirewallRules_events ProcessTargetPools_events
        ProcessForwardingRules_events ProcessNetworks_events ProcessRoutes_events
        ProcessIPAddresses_events)

lemma getRawResource_shape:
  "\<exists>args out err.
     getRawResource w p r =
       ([Log ''Running: gcloud %s'' [ArgStrs args], Exec ''gcloud'' args], out, err)"
  by (simp only: getRawResource_def Let_def) (metis prod.exhaust)

lemma processFirewallRules_events:
  "filter isFatal (processFirewallRules w p) = [] \<and>
   filter isSleep (processFirewallRules w p) = [] \<and>
   length (filter isExec (processFirewallRules w p)) = 1"
proof -
  obtain args out err where
    "getRawResource w p ''firewall-rules'' =
       ([Log ''Running: gcloud %s'' [ArgStrs args], Exec ''gcloud'' args], out, err)"
    using getRawResource_shape by blast
  then show ?thesis
    by (simp add: processFirewallRules_def filter_map comp_def split_beta split: sum.split option.split)
qed

lemma processTargetPools_events:
  "filter isFatal (processTargetPools w p) = [] \<and>
   filter isSleep (processTargetPools w p) = [] \<and>
   length (filter isExec (processTargetPools w p)) = 1"
proof -
  obtain args out err where
    "getRawResource w p ''target-pools'' =
       ([Log ''Running: gcloud %s'' [ArgStrs args], Exec ''gcloud'' args], out, err)"
    using getRawResource_shape by blast
  then show ?thesis
    by (simp add: processTargetPools_def filter_map comp_def split_beta split: sum.split option.split)
qed

lemma processForwadingRules_events:
  "filter isFatal (processForwadingRules w p) = [] \<and>
   filter isSleep (processForwadingRules w p) = [] \<and>
   length (filter isExec (processForwadingRules w p)) = 1"
proof -
  obtain args out err where
    "getRawResource w p ''forwarding-rules'' =
       ([Log ''Running: gcloud %s'' [ArgStrs args], Exec ''gcloud'' args], out, err)"
    using getRawResource_shape by blast
  then show ?thesis
    by (simp add: processForwadingRules_def filter_map comp_def split_beta split: sum.split option.split)
qed

lemma processAddresses_events:
  "filter isFatal (processAddresses w p) = [] \<and>
   filter isSleep (processAddresses w p) = [] \<and>
   length (filter isExec (processAddresses w p)) = 1"
proof -
  obtain args out err where
    "getRawResource w p ''addresses'' =
       ([Log ''Running: gcloud %s'' [ArgStrs args], Exec ''gcloud'' args], out, err)"
    using getRawResource_shape by blast
  then show ?thesis
    by (simp add: processAddresses_def filter_map comp_def split_beta split: sum.split option.split)
qed

lemma processNetworks_events:
  "filter isFatal (processNetworks w p) = [] \<and>
   filter isSleep (processNetworks w p) = [] \<and>
   length (filter isExec (processNetworks w p)) = 1"
proof -
  obtain args out err where
    "getRawResource w p ''networks'' =
       ([Log ''Running: gcloud %s'' [ArgStrs args], Exec ''gcloud'' args], out, err)"
    using getRawResource_shape by blast
  then show ?thesis
    by (simp add: processNetworks_def filter_map comp_def split_beta split: sum.split option.split)
qed

lemma processRoutes_events:
  "filter isFatal (processRoutes w p) = [] \<and>
   filter isSleep (processRoutes w p) = [] \<and>
   length (filter isExec (processRoutes w p)) = 1"
proof -
  obtain args out err where
    "getRawResource w p ''routes'' =
       ([Log ''Running: gcloud %s'' [ArgStrs args], Exec ''gcloud'' args], out, err)"
    using getRawResource_shape by blast
  then show ?thesis
    by (simp add: processRoutes_def filter_map comp_def split_beta split: sum.split option.split)
qed

lemma runScraper_events:
  "filter isFatal (runScraper p period ws) = [] \<and>
   length (filter isSleep (runScraper p period ws)) = length ws \<and>
   length (filter isExec (runScraper p period ws)) = 6 * length ws"
  by (induction ws)
     (simp_all add: processFirewallRules_events processTargetPools_events
        processForwadingRules_events processAddresses_events processNetworks_events
        processRoutes_events)

subsection \<open>Startup\<close>

lemma registerAll_Cons_None:
  "MetricDescriptors_Create w (Project m) (int64Descriptor m (metricDescription cm)) = None \<Longrightarrow>
   registerAll w m (cm # cms) =
     (CreateCall (Project m) (int64Descriptor m (metricDescription cm)) #
      Log ''Created metric: %s\<newline>'' [ArgResp] # fst (registerAll w m cms),
      snd (registerAll w m cms))"
  by (cases "registerAll w m cms") (simp add: createMetricDescriptor_def Let_def)

lemma registerAll_Cons_Some:
  "MetricDescriptors_Create w (Project m) (int64Descriptor m (metricDescription cm)) = Some err \<Longrightarrow>
   registerAll w m (cm # cms) =
     ([CreateCall (Project m) (int64Descriptor m (metricDescription cm)),
       Fatal ''Error creating firewall metric: %v'' [ArgErr (Some err)]], Exited)"
  by (simp add: createMetricDescriptor_def Let_def)

lemma registerAll_events:
  "filter isWriteCall (fst (registerAll w m cms)) = [] \<and>
   filter isApiList (fst (registerAll w m cms)) = [] \<and>
   filter isSleep (fst (registerAll w m cms)) = [] \<and>
   Fatal f [] \<notin> set (fst (registerAll w m cms))"
proof (induction cms)
  case Nil
  show ?case by simp
next
  case (Cons cm cms)
  show ?case
  proof (cases "MetricDescriptors_Create w (Project m) (int64Descriptor m (metricDescription cm))")
    case None
    with Cons show ?thesis by (simp add: registerAll_Cons_None del: registerAll.simps)
  next
    case (Some err)
    then show ?thesis by (simp add: registerAll_Cons_Some del: registerAll.simps)
  qed
qed

lemma registerAll_outcome:
  "(snd (registerAll w m cms) = Exited) =
     (\<exists>cm\<in>set cms.
        MetricDescriptors_Create w (Project m) (int64Descriptor m (metricDescription cm)) \<noteq> None)"
proof (induction cms)
  case Nil
  show ?case by simp
next
  case (Cons cm cms)
  show ?case
  proof (cases "MetricDescriptors_Create w (Project m) (int64Descriptor m (metricDescription cm))")
    case None
    with Cons show ?thesis by (simp add: registerAll_Cons_None del: registerAll.simps)
  next
    case (Some err)
    then show ?thesis by (simp add: registerAll_Cons_Some del: registerAll.simps)
  qed
qed

lemma registerAll_Exited_last:
  "snd (registerAll w m cms) = Exited \<Longrightarrow>
   fst (registerAll w m cms) \<noteq> [] \<and> isFatal (last (fst (registerAll w m cms)))"
proof (induction cms)
  case Nil
  then show ?case by simp
next
  case (Cons cm cms)
  show ?case
  proof (cases "MetricDescriptors_Create w (Project m) (int64Descriptor m (metricDescription cm))")
    case None
    with Cons show ?thesis by (simp add: registerAll_Cons_None del: registerAll.simps)
  next
    case (Some err)
    then show ?thesis by (simp add: registerAll_Cons_Some del: registerAll.simps)
  qed
qed

lemma CreateMetricDescriptors_Cons_None:
  "MetricDescriptors_Create w (Project m) (doubleDescriptor m d) = None \<Longrightarrow>
   CreateMetricDescriptors w m (d # descs) =
     (CreateCall (Project m) (doubleDescriptor m d) #
      Log ''Created metric: %s\<newline>'' [ArgResp] # fst (CreateMetricDescriptors w m descs),
      snd (CreateMetricDescriptors w m descs))"
  by (cases "CreateMetricDescriptors w m descs") (simp add: Let_def)

lemma CreateMetricDescriptors_Cons_Some:
  "MetricDescriptors_Create w (Project m) (doubleDescriptor m d) = Some err \<Longrightarrow>
   CreateMetricDescriptors w m (d # descs) =
     ([CreateCall (Project m) (doubleDescriptor m d),
       Fatal ''Error creating firewall metric: %v'' [ArgErr (Some err)]], Exited)"
  by (simp add: Let_def)

lemma CreateMetricDescriptors_events:
  "filter isWriteCall (fst (CreateMetricDescriptors w m descs)) = [] \<and>
   filter isApiList (fst (CreateMetricDescriptors w m descs)) = [] \<and>
   filter isSleep (fst (CreateMetricDescriptors w m descs)) = [] \<and>
   Fatal f [] \<notin> set (fst (CreateMetricDescriptors w m descs))"
proof (induction descs)
  case Nil
  show ?case by simp
next
  case (Cons d descs)
  show ?case
  proof (cases "MetricDescriptors_Create w (Project m) (doubleDescriptor m d)")
    case None
    with Cons show ?thesis by (simp add: CreateMetricDescriptors_Cons_None del: CreateMetricDescriptors.simps)
  next
    case (Some err)
    then show ?thesis by (simp add: CreateMetricDescriptors_Cons_Some del: CreateMetricDescriptors.simps)
  qed
qed

lemma CreateMetricDescriptors_outcome:
  "(snd (CreateMetricDescriptors w m descs) = Exited) =
     (\<exists>d\<in>set descs. MetricDescriptors_Create w (Project m) (doubleDescriptor m d) \<noteq> None)"
proof (induction descs)
  case Nil
  show ?case by simp
next
  case (Cons d descs)
  show ?case
  proof (cases "MetricDescriptors_Create w (Project m) (doubleDescriptor m d)")
    case None
    with Cons show ?thesis by (simp add: CreateMetricDescriptors_Cons_None del: CreateMetricDescriptors.simps)
  next
    case (Some err)
    then show ?thesis by (simp add: CreateMetricDescriptors_Cons_Some del: CreateMetricDescriptors.simps)
  qed
qed

lemma CreateMetricDescriptors_Exited_last:
  "snd (CreateMetricDescriptors w m descs) = Exited \<Longrightarrow>
   fst (CreateMetricDescriptors w m descs) \<noteq> [] \<and>
   isFatal (last (fst (CreateMetricDescriptors w m descs)))"
proof (induction descs)
  case Nil
  then show ?case by simp
next
  case (Cons d descs)
  show ?case
  proof (cases "MetricDescriptors_Create w (Project m) (doubleDescriptor m d)")
    case None
    with Cons show ?thesis by (simp add: CreateMetricDescriptors_Cons_None del: CreateMetricDescriptors.simps)
  next
    case (Some err)
    then show ?thesis by (simp add: CreateMetricDescriptors_Cons_Some del: CreateMetricDescriptors.simps)
  qed
qed

lemma no_Fatal_not_member: "filter isFatal evs = [] \<Longrightarrow> Fatal f args \<notin> set evs"
  by (auto simp: filter_empty_conv)

lemma registerAll_Running:
  "(snd (registerAll w m cms) = Running) =
     (\<not> (\<exists>cm\<in>set cms.
        MetricDescriptors_Create w (Project m) (int64Descriptor m (metricDescription cm)) \<noteq> None))"
  using registerAll_outcome [of w m cms]
  by (cases "snd (registerAll w m cms)") simp_all

lemma CreateMetricDescriptors_Running:
  "(snd (CreateMetricDescriptors w m descs) = Running) =
     (\<not> (\<exists>d\<in>set descs. MetricDescriptors_Create w (Project m) (doubleDescriptor m d) \<noteq> None))"
  using CreateMetricDescriptors_outcome [of w m descs]
  by (cases "snd (CreateMetricDescriptors w m descs)") simp_all

lemma main_iface_started:
  assumes "project fl \<noteq> []"
      and "DefaultClient w0 = None \<and> compute_New w0 = None \<and> cloudmonitoring_New w0 = None"
  shows "main_iface fl w0 ws =
           (case registerAll w0 \<lparr>Project = project fl\<rparr> customMetrics of
              (evs, Exited) \<Rightarrow> (evs, Exited)
            | (evs, Running) \<Rightarrow>
                (evs @ scrapeLoop \<lparr>Project = project fl\<rparr> (scrapePeriod fl) ws, Running))"
  using assms by (simp add: main_iface_def Let_def)

lemma main_gce_started:
  assumes "project fl \<noteq> []"
      and "DefaultClient w0 = None \<and> compute_New w0 = None \<and> cloudmonitoring_New w0 = None"
  shows "main_gce fl w0 ws =
           (case CreateMetricDescriptors w0 \<lparr>Project = project fl\<rparr> metricDescriptions of
              (evs, Exited) \<Rightarrow> (evs, Exited)
            | (evs, Running) \<Rightarrow>
                (evs @ gceLoop \<lparr>Project = project fl\<rparr> (scrapePeriod fl) ws, Running))"
  using assms by (simp add: main_gce_def Let_def)

subsection \<open>One failing metric\<close>





















































subsection \<open>The claims\<close>


text \<open>
  C2. The claim: the labelled report sends one observation per bucket and, for an empty
  mapping, makes no write call at all. The interface-based \<open>ReportLabeledTimeseries\<close>
  returns before the write when there are no values. \<open>reportLabeledTimeseries\<close> of
  monitoring/gce has no such return: for an empty mapping it still calls the sink once,
  with a request that carries no point (here for a project with no global address, and
  for one with no firewall rule). What both do is send one point per value they are given.
\<close>

theorem C2_gce_report_writes_an_empty_batch:
  "filter isWriteCall (fst (reportLabeledTimeseries w m name [] [])) =
     [WriteCall (Project m) \<lparr>Timeseries = []\<rparr>] \<and>
   filter isWriteCall (ProcessIPAddresses (w\<lparr>GlobalAddresses_List := \<lambda>p. Inr []\<rparr>) m) =
     [WriteCall (Project m) \<lparr>Timeseries = []\<rparr>] \<and>
   filter isWriteCall (ProcessFirewallRules (w\<lparr>Firewalls_List := \<lambda>p. Inr []\<rparr>) m) =
     [WriteCall (Project m) \<lparr>Timeseries = []\<rparr>] \<and>
   filter isWriteCall (fst (ReportLabeledTimeseries w m name [] [])) = [] \<and>
   length (pointsWritten (fst (reportLabeledTimeseries w m name rvals labels))) = length rvals \<and>
   length (pointsWritten (fst (ReportLabeledTimeseries w m name vals labels))) = length vals"
  by (simp add: reportLabeledTimeseries_def ReportLabeledTimeseries_def ProcessIPAddresses_def
        ProcessFirewallRules_def countByLabel_def rangeMap_Nil logErr_def Let_def
        pointsWritten_def split: option.split)



text \<open>
  C5. The counting loop is invariant under permutation of the record list: two lists
  with the same records in any order give the same count for every bucket (the same
  mapping, and the same set of entries).
\<close>

theorem C5_counting_is_permutation_invariant:
  assumes eq: "mset xs = mset ys"
  shows "map_of (countByLabel sel xs) = map_of (countByLabel sel ys) \<and>
         set (countByLabel sel xs) = set (countByLabel sel ys)"
proof -
  have keys: "sel ` set xs = sel ` set ys"
    using eq by (metis mset_eq_setD)
  have cnt: "length (filter (\<lambda>a. sel a = k) xs) = length (filter (\<lambda>a. sel a = k) ys)" for k
  proof -
    have "mset (filter (\<lambda>a. sel a = k) xs) = mset (filter (\<lambda>a. sel a = k) ys)"
      using eq by (simp only: mset_filter)
    then show ?thesis by (rule mset_eq_length)
  qed
  have m: "map_of (countByLabel sel xs) = map_of (countByLabel sel ys)"
    by (rule ext) (simp add: countByLabel_map_of keys cnt)
  have "(p \<in> set (countByLabel sel xs)) = (p \<in> set (countByLabel sel ys))" for p
  proof (cases p)
    case (Pair k c)
    have "((k, c) \<in> set (countByLabel sel xs)) = (map_of (countByLabel sel xs) k = Some c)"
      by (simp add: countByLabel_distinct)
    also have "\<dots> = (map_of (countByLabel sel ys) k = Some c)"
      by (simp only: m)
    also have "\<dots> = ((k, c) \<in> set (countByLabel sel ys))"
      by (simp add: countByLabel_distinct)
    finally show ?thesis using Pair by simp
  qed
  then have "set (countByLabel sel xs) = set (countByLabel sel ys)" by blast
  with m show ?thesis by simp
qed

theorem C5_counting_is_permutation_invariant_witness:
  "mset [\<lparr>Network = ''a''\<rparr>, \<lparr>Network = ''b''\<rparr>, \<lparr>Network = ''a''\<rparr>] =
     mset [\<lparr>Network = ''b''\<rparr>, \<lparr>Network = ''a''\<rparr>, \<lparr>Network = ''a''\<rparr>] \<and>
   (map_of (countByLabel Network [\<lparr>Network = ''a''\<rparr>, \<lparr>Network = ''b''\<rparr>, \<lparr>Network = ''a''\<rparr>]) =
      map_of (countByLabel Network [\<lparr>Network = ''b''\<rparr>, \<lparr>Network = ''a''\<rparr>, \<lparr>Network = ''a''\<rparr>]) \<and>
    set (countByLabel Network [\<lparr>Network = ''a''\<rparr>, \<lparr>Network = ''b''\<rparr>, \<lparr>Network = ''a''\<rparr>]) =
      set (countByLabel Network [\<lparr>Network = ''b''\<rparr>, \<lparr>Network = ''a''\<rparr>, \<lparr>Network = ''a''\<rparr>]))"
proof -
  have h: "mset [\<lparr>Network = ''a''\<rparr>, \<lparr>Network = ''b''\<rparr>, \<lparr>Network = ''a''\<rparr>] =
           mset [\<lparr>Network = ''b''\<rparr>, \<lparr>Network = ''a''\<rparr>, \<lparr>Network = ''a''\<rparr>]"
    by simp
  show ?thesis
    by (rule conjI [OF h C5_counting_is_permutation_invariant [OF h]])
qed

text \<open>
  C6. For the record list [{network: a}, {network: a}, {network: b}] the counting loop
  gives the mapping {a: 2, b: 1}, and the push reporters send exactly two observations of
  gce_firewall_rules, whatever the order of the range over the map: one labelled
  network = a with value 2 and one labelled network = b with value 1 (int64 in the
  interface-based variant, double in the other).
\<close>

theorem C6_network_scenario:
  assumes ord: "rangeOrder (shuffle w)"
      and fetch: "Firewalls_List w (Project m) =
                    Inr [\<lparr>Network = ''a''\<rparr>, \<lparr>Network = ''a''\<rparr>, \<lparr>Network = ''b''\<rparr>]"
  shows "map_of (countByLabel Network [\<lparr>Network = ''a''\<rparr>, \<lparr>Network = ''a''\<rparr>, \<lparr>Network = ''b''\<rparr>]) =
           [''a'' \<mapsto> 2, ''b'' \<mapsto> 1] \<and>
         mset (map observation (pointsWritten (fst (FirewallRules_ProcessMetric w m)))) =
           {#(customName ''gce_firewall_rules'', Some [(customName ''network'', ''a'')], Some 2, None),
             (customName ''gce_firewall_rules'', Some [(customName ''network'', ''b'')], Some 1, None)#} \<and>
         mset (map observation (pointsWritten (ProcessFirewallRules w m))) =
           {#(customName ''gce_firewall_rules'', Some [(customName ''network'', ''a'')], None, Some 2),
             (customName ''gce_firewall_rules'', Some [(customName ''network'', ''b'')], None, Some 1)#}"
proof -
  let ?items = "[\<lparr>Network = ''a''\<rparr>, \<lparr>Network = ''a''\<rparr>, \<lparr>Network = ''b''\<rparr>]"
  let ?es = "rangeMap (shuffle w) (countByLabel Network ?items)"
  have es: "mset ?es = {#(''a'', 2), (''b'', 1)#}"
    using rangeMap_mset [OF ord countByLabel_distinct, of Network ?items]
    by (simp add: sample_counts)
  have A: "map_of (countByLabel Network ?items) = [''a'' \<mapsto> 2, ''b'' \<mapsto> 1]"
    by (rule ext) (simp add: sample_counts)
  have B: "mset (map observation (pointsWritten (fst (FirewallRules_ProcessMetric w m)))) =
           image_mset (\<lambda>x. (customName ''gce_firewall_rules'',
                        Some [(customName ''network'', fst x)], Some (snd x), None)) (mset ?es)"
    unfolding FirewallRules_ProcessMetric_points [OF ord fetch]
    by (simp add: observation_def split_beta comp_def)
  have C: "mset (map observation (pointsWritten (ProcessFirewallRules w m))) =
           image_mset (\<lambda>x. (customName ''gce_firewall_rules'',
                        Some [(customName ''network'', fst x)], None, Some (real_of_int (snd x)))) (mset ?es)"
    unfolding ProcessFirewallRules_points [OF ord fetch]
    by (simp add: observation_def split_beta comp_def)
  show ?thesis
    unfolding A B C es by simp
qed

theorem C6_network_scenario_witness:
  "rangeOrder (shuffle sampleWorld) \<and>
   Firewalls_List sampleWorld (Project \<lparr>Project = ''demo''\<rparr>) =
     Inr [\<lparr>Network = ''a''\<rparr>, \<lparr>Network = ''a''\<rparr>, \<lparr>Network = ''b''\<rparr>] \<and>
   (map_of (countByLabel Network [\<lparr>Network = ''a''\<rparr>, \<lparr>Network = ''a''\<rparr>, \<lparr>Network = ''b''\<rparr>]) =
           [''a'' \<mapsto> 2, ''b'' \<mapsto> 1] \<and>
         mset (map observation (pointsWritten (fst (FirewallRules_ProcessMetric sampleWorld \<lparr>Project = ''demo''\<rparr>)))) =
           {#(customName ''gce_firewall_rules'', Some [(customName ''network'', ''a'')], Some 2, None),
             (customName ''gce_firewall_rules'', Some [(customName ''network'', ''b'')], Some 1, None)#} \<and>
         mset (map observation (pointsWritten (ProcessFirewallRules sampleWorld \<lparr>Project = ''demo''\<rparr>))) =
           {#(customName ''gce_firewall_rules'', Some [(customName ''network'', ''a'')], None, Some 2),
             (customName ''gce_firewall_rules'', Some [(customName ''network'', ''b'')], None, Some 1)#})"
proof -
  have h1: "rangeOrder (shuffle sampleWorld)"
    by (simp add: sampleWorld_def rangeOrder_rev)
  have h2: "Firewalls_List sampleWorld (Project \<lparr>Project = ''demo''\<rparr>) =
     Inr [\<lparr>Network = ''a''\<rparr>, \<lparr>Network = ''a''\<rparr>, \<lparr>Network = ''b''\<rparr>]"
    by (simp add: sampleWorld_def)
  show ?thesis
    by (rule conjI [OF h1 conjI [OF h2 C6_network_scenario [OF h1 h2]]])
qed

text \<open>
  C7. Label keys sent are the keys registered. Both descriptor builders register, for a
  declared label \<open>l\<close>, the key custom.cloudmonitoring.googleapis.com/ followed by \<open>l\<close>.
  \<open>fixLabels\<close> turns a label map into the map with every key prefixed in the same way
  and every value unchanged; both report functions attach to point \<open>i\<close> exactly
  \<open>fixLabels\<close> of \<open>labels[i]\<close>. Hence every point that a metric of the
  interface-based variant sends carries only keys registered for that metric, and the
  labelled metrics of monitoring/gce carry exactly their registered keys.
\<close>

theorem C7_label_keys_are_the_registered_keys:
  assumes ord: "rangeOrder (shuffle w)" and d: "distinct (map fst lm)"
  shows "customName l = ''custom.cloudmonitoring.googleapis.com/'' @ l \<and>
         map Key (mdLabels (int64Descriptor m metric)) = map customName (Labels metric) \<and>
         map Key (mdLabels (doubleDescriptor m metric)) = map customName (Labels metric) \<and>
         (\<exists>munged. fixLabels (shuffle w) (Some lm) = Some munged \<and>
            fst ` set munged = customName ` fst ` set lm \<and>
            (\<forall>k. map_of munged (customName k) = map_of lm k)) \<and>
         map (\<lambda>p. tsLabels (TimeseriesDesc p))
             (pointsWritten (fst (ReportLabeledTimeseries w m name vals labels))) =
           map (\<lambda>i. if i < length labels then fixLabels (shuffle w) (labels ! i) else None)
             [0..<length vals] \<and>
         map (\<lambda>p. tsLabels (TimeseriesDesc p))
             (pointsWritten (fst (reportLabeledTimeseries w m name rvals labels))) =
           map (\<lambda>i. if i < length labels then fixLabels (shuffle w) (labels ! i) else None)
             [0..<length rvals] \<and>
         list_all (\<lambda>p. set (labelKeys p) \<subseteq>
                         set (map Key (mdLabels (int64Descriptor m (metricDescription cm)))))
           (pointsWritten (fst (ProcessMetric cm w m))) \<and>
         list_all (\<lambda>p. labelKeys p = map Key (mdLabels (doubleDescriptor m (metricDescriptions ! 0))))
           (pointsWritten (ProcessFirewallRules w m)) \<and>
         list_all (\<lambda>p. labelKeys p = map Key (mdLabels (doubleDescriptor m (metricDescriptions ! 3))))
           (pointsWritten (ProcessIPAddresses w m))"
proof -
  have a: "customName l = ''custom.cloudmonitoring.googleapis.com/'' @ l"
    by (simp add: customName_def)
  from fixLabels_Some [OF ord d]
  have b: "\<exists>munged. fixLabels (shuffle w) (Some lm) = Some munged \<and>
            fst ` set munged = customName ` fst ` set lm \<and>
            (\<forall>k. map_of munged (customName k) = map_of lm k)"
    by blast
  show ?thesis
    using a b int64Descriptor_keys doubleDescriptor_keys ReportLabeledTimeseries_labels
      reportLabeledTimeseries_labels ProcessMetric_label_keys [OF ord]
      ProcessFirewallRules_label_keys [OF ord] ProcessIPAddresses_label_keys [OF ord]
    by (intro conjI)
qed

theorem C7_label_keys_are_the_registered_keys_witness:
  "rangeOrder (shuffle sampleWorld) \<and>
   distinct (map fst [(''network'', ''a'')]) \<and>
   (customName ''network'' = ''custom.cloudmonitoring.googleapis.com/'' @ ''network'' \<and>
    map Key (mdLabels (int64Descriptor \<lparr>Project = ''demo''\<rparr> FirewallRules_MetricDescription)) =
      map customName (Labels FirewallRules_MetricDescription) \<and>
    map Key (mdLabels (doubleDescriptor \<lparr>Project = ''demo''\<rparr> FirewallRules_MetricDescription)) =
      map customName (Labels FirewallRules_MetricDescription) \<and>
    (\<exists>munged. fixLabels (shuffle sampleWorld) (Some [(''network'', ''a'')]) = Some munged \<and>
       fst ` set munged = customName ` fst ` set [(''network'', ''a'')] \<and>
       (\<forall>k. map_of munged (customName k) = map_of [(''network'', ''a'')] k)) \<and>
    map (\<lambda>p. tsLabels (TimeseriesDesc p))
        (pointsWritten (fst (ReportLabeledTimeseries sampleWorld \<lparr>Project = ''demo''\<rparr>
           ''gce_firewall_rules'' [2, 1]
           [Some [(''network'', ''a'')], Some [(''network'', ''b'')]]))) =
      map (\<lambda>i. if i < length [Some [(''network'', ''a'')], Some [(''network'', ''b'')]]
                then fixLabels (shuffle sampleWorld)
                       ([Some [(''network'', ''a'')], Some [(''network'', ''b'')]] ! i)
                else None)
        [0..<length [2, 1 :: int]] \<and>
    map (\<lambda>p. tsLabels (TimeseriesDesc p))
        (pointsWritten (fst (reportLabeledTimeseries sampleWorld \<lparr>Project = ''demo''\<rparr>
           ''gce_firewall_rules'' [2, 1]
           [Some [(''network'', ''a'')], Some [(''network'', ''b'')]]))) =
      map (\<lambda>i. if i < length [Some [(''network'', ''a'')], Some [(''network'', ''b'')]]
                then fixLabels (shuffle sampleWorld)
                       ([Some [(''network'', ''a'')], Some [(''network'', ''b'')]] ! i)
                else None)
        [0..<length [2, 1 :: real]] \<and>
    list_all (\<lambda>p. set (labelKeys p) \<subseteq>
                    set (map Key (mdLabels (int64Descriptor \<lparr>Project = ''demo''\<rparr>
                                              (metricDescription FirewallRules)))))
      (pointsWritten (fst (ProcessMetric FirewallRules sampleWorld \<lparr>Project = ''demo''\<rparr>))) \<and>
    list_all (\<lambda>p. labelKeys p =
                    map Key (mdLabels (doubleDescriptor \<lparr>Project = ''demo''\<rparr>
                                         (metricDescriptions ! 0))))
      (pointsWritten (ProcessFirewallRules sampleWorld \<lparr>Project = ''demo''\<rparr>)) \<and>
    list_all (\<lambda>p. labelKeys p =
                    map Key (mdLabels (doubleDescriptor \<lparr>Project = ''demo''\<rparr>
                                         (metricDescriptions ! 3))))
      (pointsWritten (ProcessIPAddresses sampleWorld \<lparr>Project = ''demo''\<rparr>)))"
proof -
  have h1: "rangeOrder (shuffle sampleWorld)"
    by (simp add: sampleWorld_def rangeOrder_rev)
  have h2: "distinct (map fst [(''network'', ''a'')])"
    by simp
  show ?thesis
    by (rule conjI [OF h1 conjI [OF h2 C7_label_keys_are_the_registered_keys [OF h1 h2]]])
qed

text \<open>
  C8. In both push variants, once the project is given and the clients exist: if the sink
  rejects any descriptor at startup the process exits, its last event being the fatal log
  line, and no list call, no write and no sleep ever happens; if it rejects none the
  process goes on into the loop. No cycle of either loop makes a descriptor creation
  call, so a rejected registration is never retried.
\<close>

theorem C8_registration_failure_is_fatal_at_startup:
  assumes proj: "project fl \<noteq> []"
      and clients: "DefaultClient w0 = None \<and> compute_New w0 = None \<and> cloudmonitoring_New w0 = None"
  shows "(if \<exists>cm\<in>set customMetrics.
              MetricDescriptors_Create w0 (project fl)
                (int64Descriptor \<lparr>Project = project fl\<rparr> (metricDescription cm)) \<noteq> None
          then snd (main_iface fl w0 ws) = Exited \<and>
               isFatal (last (fst (main_iface fl w0 ws))) \<and>
               filter isWriteCall (fst (main_iface fl w0 ws)) = [] \<and>
               filter isApiList (fst (main_iface fl w0 ws)) = [] \<and>
               filter isSleep (fst (main_iface fl w0 ws)) = []
          else snd (main_iface fl w0 ws) = Running) \<and>
         (if \<exists>d\<in>set metricDescriptions.
              MetricDescriptors_Create w0 (project fl)
                (doubleDescriptor \<lparr>Project = project fl\<rparr> d) \<noteq> None
          then snd (main_gce fl w0 ws) = Exited \<and>
               isFatal (last (fst (main_gce fl w0 ws))) \<and>
               filter isWriteCall (fst (main_gce fl w0 ws)) = [] \<and>
               filter isApiList (fst (main_gce fl w0 ws)) = [] \<and>
               filter isSleep (fst (main_gce fl w0 ws)) = []
          else snd (main_gce fl w0 ws) = Running) \<and>
         filter isCreateCall (scrapeLoop m period ws) = [] \<and>
         filter isCreateCall (gceLoop m period ws) = []"
proof -
  let ?mon = "\<lparr>Project = project fl\<rparr>"
  obtain evs oc where rB: "registerAll w0 ?mon customMetrics = (evs, oc)"
    by (cases "registerAll w0 ?mon customMetrics")
  obtain evs' oc' where rC: "CreateMetricDescriptors w0 ?mon metricDescriptions = (evs', oc')"
    by (cases "CreateMetricDescriptors w0 ?mon metricDescriptions")
  have B: "if \<exists>cm\<in>set customMetrics.
              MetricDescriptors_Create w0 (project fl)
                (int64Descriptor ?mon (metricDescription cm)) \<noteq> None
          then snd (main_iface fl w0 ws) = Exited \<and>
               isFatal (last (fst (main_iface fl w0 ws))) \<and>
               filter isWriteCall (fst (main_iface fl w0 ws)) = [] \<and>
               filter isApiList (fst (main_iface fl w0 ws)) = [] \<and>
               filter isSleep (fst (main_iface fl w0 ws)) = []
          else snd (main_iface fl w0 ws) = Running"
  proof (cases oc)
    case Exited
    with rB have ex: "snd (registerAll w0 ?mon customMetrics) = Exited" by simp
    then have rej: "\<exists>cm\<in>set customMetrics.
              MetricDescriptors_Create w0 (project fl)
                (int64Descriptor ?mon (metricDescription cm)) \<noteq> None"
      by (simp add: registerAll_outcome)
    have "main_iface fl w0 ws = (evs, Exited)"
      using rB Exited by (simp add: main_iface_started [OF proj clients])
    moreover have "isFatal (last evs)"
      using registerAll_Exited_last [OF ex] rB by simp
    moreover have "filter isWriteCall evs = [] \<and> filter isApiList evs = [] \<and>
                   filter isSleep evs = []"
      using registerAll_events [of w0 ?mon customMetrics] rB by simp
    ultimately show ?thesis using rej by simp
  next
    case Running
    with rB have "snd (registerAll w0 ?mon customMetrics) = Running" by simp
    then have rej: "\<not> (\<exists>cm\<in>set customMetrics.
              MetricDescriptors_Create w0 (project fl)
                (int64Descriptor ?mon (metricDescription cm)) \<noteq> None)"
      by (simp add: registerAll_Running)
    have "snd (main_iface fl w0 ws) = Running"
      using rB Running by (simp add: main_iface_started [OF proj clients])
    then show ?thesis using rej by simp
  qed
  have C: "if \<exists>d\<in>set metricDescriptions.
              MetricDescriptors_Create w0 (project fl) (doubleDescriptor ?mon d) \<noteq> None
          then snd (main_gce fl w0 ws) = Exited \<and>
               isFatal (last (fst (main_gce fl w0 ws))) \<and>
               filter isWriteCall (fst (main_gce fl w0 ws)) = [] \<and>
               filter isApiList (fst (main_gce fl w0 ws)) = [] \<and>
               filter isSleep (fst (main_gce fl w0 ws)) = []
          else snd (main_gce fl w0 ws) = Running"
  proof (cases oc')
    case Exited
    with rC have ex: "snd (CreateMetricDescriptors w0 ?mon metricDescriptions) = Exited" by simp
    then have rej: "\<exists>d\<in>set metricDescriptions.
              MetricDescriptors_Create w0 (project fl) (doubleDescriptor ?mon d) \<noteq> None"
      by (simp add: CreateMetricDescriptors_outcome)
    have "main_gce fl w0 ws = (evs', Exited)"
      using rC Exited by (simp add: main_gce_started [OF proj clients])
    moreover have "isFatal (last evs')"
      using CreateMetricDescriptors_Exited_last [OF ex] rC by simp
    moreover have "filter isWriteCall evs' = [] \<and> filter isApiList evs' = [] \<and>
                   filter isSleep evs' = []"
      using CreateMetricDescriptors_events [of w0 ?mon metricDescriptions] rC by simp
    ultimately show ?thesis using rej by simp
  next
    case Running
    with rC have "snd (CreateMetricDescriptors w0 ?mon metricDescriptions) = Running" by simp
    then have rej: "\<not> (\<exists>d\<in>set metricDescriptions.
              MetricDescriptors_Create w0 (project fl) (doubleDescriptor ?mon d) \<noteq> None)"
      by (simp add: CreateMetricDescriptors_Running)
    have "snd (main_gce fl w0 ws) = Running"
      using rC Running by (simp add: main_gce_started [OF proj clients])
    then show ?thesis using rej by simp
  qed
  from B C show ?thesis
    by (simp only: scrapeLoop_events gceLoop_events simp_thms)
qed
theorem C8_registration_failure_is_fatal_at_startup_witness:
  "project sampleFlags \<noteq> [] \<and>
   (DefaultClient rejectingWorld = None \<and> compute_New rejectingWorld = None \<and>
    cloudmonitoring_New rejectingWorld = None) \<and>
   (\<exists>cm\<in>set customMetrics.
      MetricDescriptors_Create rejectingWorld (project sampleFlags)
        (int64Descriptor \<lparr>Project = project sampleFlags\<rparr> (metricDescription cm)) \<noteq> None) \<and>
   (\<exists>d\<in>set metricDescriptions.
      MetricDescriptors_Create rejectingWorld (project sampleFlags)
        (doubleDescriptor \<lparr>Project = project sampleFlags\<rparr> d) \<noteq> None) \<and>
   snd (main_iface sampleFlags rejectingWorld [sampleWorld]) = Exited \<and>
   isFatal (last (fst (main_iface sampleFlags rejectingWorld [sampleWorld]))) \<and>
   filter isWriteCall (fst (main_iface sampleFlags rejectingWorld [sampleWorld])) = [] \<and>
   filter isApiList (fst (main_iface sampleFlags rejectingWorld [sampleWorld])) = [] \<and>
   filter isSleep (fst (main_iface sampleFlags rejectingWorld [sampleWorld])) = [] \<and>
   snd (main_gce sampleFlags rejectingWorld [sampleWorld]) = Exited \<and>
   isFatal (last (fst (main_gce sampleFlags rejectingWorld [sampleWorld]))) \<and>
   filter isWriteCall (fst (main_gce sampleFlags rejectingWorld [sampleWorld])) = [] \<and>
   filter isApiList (fst (main_gce sampleFlags rejectingWorld [sampleWorld])) = [] \<and>
   filter isSleep (fst (main_gce sampleFlags rejectingWorld [sampleWorld])) = [] \<and>
   snd (main_iface sampleFlags sampleWorld [sampleWorld]) = Running"
proof -
  have h1: "project sampleFlags \<noteq> []"
    by (simp add: sampleFlags_def)
  have h2: "DefaultClient rejectingWorld = None \<and> compute_New rejectingWorld = None \<and>
            cloudmonitoring_New rejectingWorld = None"
    by (simp add: rejectingWorld_def sampleWorld_def)
  have h2': "DefaultClient sampleWorld = None \<and> compute_New sampleWorld = None \<and>
            cloudmonitoring_New sampleWorld = None"
    by (simp add: sampleWorld_def)
  have r: "\<exists>cm\<in>set customMetrics.
      MetricDescriptors_Create rejectingWorld (project sampleFlags)
        (int64Descriptor \<lparr>Project = project sampleFlags\<rparr> (metricDescription cm)) \<noteq> None"
    by (simp add: customMetrics_def rejectingWorld_def int64Descriptor_def
          Routes_MetricDescription_def)
  have r': "\<exists>d\<in>set metricDescriptions.
      MetricDescriptors_Create rejectingWorld (project sampleFlags)
        (doubleDescriptor \<lparr>Project = project sampleFlags\<rparr> d) \<noteq> None"
    by (simp add: metricDescriptions_def rejectingWorld_def doubleDescriptor_def)
  have ok: "\<not> (\<exists>cm\<in>set customMetrics.
      MetricDescriptors_Create sampleWorld (project sampleFlags)
        (int64Descriptor \<lparr>Project = project sampleFlags\<rparr> (metricDescription cm)) \<noteq> None)"
    by (simp add: sampleWorld_def)
  show ?thesis
    using C8_registration_failure_is_fatal_at_startup [OF h1 h2, where ws = "[sampleWorld]"]
      C8_registration_failure_is_fatal_at_startup [OF h1 h2', where ws = "[sampleWorld]"] r r' ok h1 h2
    by simp
qed

text \<open>
  C9. With an empty project name each of the three programs does nothing but log the
  fatal line and exit: no registration, no fetch, no cycle. With a non-empty project name
  the check passes: \<open>checkArgs\<close> returns normally, the pull variant runs on, and that
  fatal line occurs nowhere in the run of any variant.
\<close>

theorem C9_empty_project_is_fatal_at_startup:
  "(if project fl = []
    then main_pull fl pws =
           ([Fatal ''Error: Empty project. A project name must be specified.'' []], Exited) \<and>
         main_iface fl w0 ws =
           ([Fatal ''Error: Empty project. A project name must be specified.'' []], Exited) \<and>
         main_gce fl w0 ws =
           ([Fatal ''Error: Empty project. A project name must be specified.'' []], Exited)
    else checkArgs fl = ([], Running) \<and>
         snd (main_pull fl pws) = Running \<and>
         Fatal ''Error: Empty project. A project name must be specified.'' []
           \<notin> set (fst (main_pull fl pws)) \<and>
         Fatal ''Error: Empty project. A project name must be specified.'' []
           \<notin> set (fst (main_iface fl w0 ws)) \<and>
         Fatal ''Error: Empty project. A project name must be specified.'' []
           \<notin> set (fst (main_gce fl w0 ws)))"
proof (cases "project fl = []")
  case True
  then show ?thesis
    by (simp add: main_pull_def main_iface_def main_gce_def checkArgs_def)
next
  case False
  have pull: "Fatal f [] \<notin> set (runScraper p period pws)" for f p period
    by (rule no_Fatal_not_member) (simp add: runScraper_events)
  have loopB: "Fatal f [] \<notin> set (scrapeLoop m period ws)" for f m period
    by (rule no_Fatal_not_member) (simp add: scrapeLoop_events)
  have loopC: "Fatal f [] \<notin> set (gceLoop m period ws)" for f m period
    by (rule no_Fatal_not_member) (simp add: gceLoop_events)
  have a: "checkArgs fl = ([], Running)"
    using False by (simp add: checkArgs_def)
  have b: "snd (main_pull fl pws) = Running"
    by (simp add: main_pull_def a)
  have c: "Fatal ''Error: Empty project. A project name must be specified.'' []
             \<notin> set (fst (main_pull fl pws))"
    using pull by (simp add: main_pull_def a)
  have d: "Fatal ''Error: Empty project. A project name must be specified.'' []
             \<notin> set (fst (main_iface fl w0 ws))"
  proof -
    obtain evs oc where r: "registerAll w0 \<lparr>Project = project fl\<rparr> customMetrics = (evs, oc)"
      by (cases "registerAll w0 \<lparr>Project = project fl\<rparr> customMetrics")
    have n: "Fatal ''Error: Empty project. A project name must be specified.'' [] \<notin> set evs"
      using registerAll_events [of w0 "\<lparr>Project = project fl\<rparr>" customMetrics] r by simp
    show ?thesis
      using False n loopB r
      by (cases oc) (simp_all add: main_iface_def split: option.split)
  qed
  have e: "Fatal ''Error: Empty project. A project name must be specified.'' []
             \<notin> set (fst (main_gce fl w0 ws))"
  proof -
    obtain evs oc where
      r: "CreateMetricDescriptors w0 \<lparr>Project = project fl\<rparr> metricDescriptions = (evs, oc)"
      by (cases "CreateMetricDescriptors w0 \<lparr>Project = project fl\<rparr> metricDescriptions")
    have n: "Fatal ''Error: Empty project. A project name must be specified.'' [] \<notin> set evs"
      using CreateMetricDescriptors_events [of w0 "\<lparr>Project = project fl\<rparr>" metricDescriptions] r
      by simp
    show ?thesis
      using False n loopC r
      by (cases oc) (simp_all add: main_gce_def split: option.split)
  qed
  from False a b c d e show ?thesis by simp
qed

text \<open>
  C10. In the interface-based variant gce_networks and gce_routes are declared with the
  label network, and registered with the label key custom.cloudmonitoring.googleapis.com/network,
  yet the only observation either ever sends is the one of \<open>ReportTimeseries\<close>, whose
  label map is nil.
\<close>

theorem C10_networks_and_routes_are_sent_unlabeled:
  "Labels (metricDescription Networks) = [''network''] \<and>
   Labels (metricDescription Routes) = [''network''] \<and>
   take 1 (fst (createMetricDescriptor w0 m (metricDescription Networks))) =
     [CreateCall (Project m) (int64Descriptor m Networks_MetricDescription)] \<and>
   take 1 (fst (createMetricDescriptor w0 m (metricDescription Routes))) =
     [CreateCall (Project m) (int64Descriptor m Routes_MetricDescription)] \<and>
   map Key (mdLabels (int64Descriptor m Networks_MetricDescription)) = [customName ''network''] \<and>
   map Key (mdLabels (int64Descriptor m Routes_MetricDescription)) = [customName ''network''] \<and>
   map observation (pointsWritten (fst (ProcessMetric Networks w m))) =
     (case Networks_List w (Project m) of
        Inl err \<Rightarrow> []
      | Inr items \<Rightarrow> [(customName ''gce_networks'', None, Some (int (length items)), None)]) \<and>
   map observation (pointsWritten (fst (ProcessMetric Routes w m))) =
     (case Routes_List w (Project m) of
        Inl err \<Rightarrow> []
      | Inr items \<Rightarrow> [(customName ''gce_routes'', None, Some (int (length items)), None)])"
proof -
  have a: "Labels (metricDescription Networks) = [''network'']"
    by (simp add: Networks_MetricDescription_def)
  have b: "Labels (metricDescription Routes) = [''network'']"
    by (simp add: Routes_MetricDescription_def)
  have c: "take 1 (fst (createMetricDescriptor w0 m (metricDescription Networks))) =
     [CreateCall (Project m) (int64Descriptor m Networks_MetricDescription)]"
    by (simp add: createMetricDescriptor_def Let_def split: option.split)
  have d: "take 1 (fst (createMetricDescriptor w0 m (metricDescription Routes))) =
     [CreateCall (Project m) (int64Descriptor m Routes_MetricDescription)]"
    by (simp add: createMetricDescriptor_def Let_def split: option.split)
  have e: "map Key (mdLabels (int64Descriptor m Networks_MetricDescription)) = [customName ''network'']"
    by (simp add: int64Descriptor_keys Networks_MetricDescription_def)
  have f: "map Key (mdLabels (int64Descriptor m Routes_MetricDescription)) = [customName ''network'']"
    by (simp add: int64Descriptor_keys Routes_MetricDescription_def)
  have g: "map observation (pointsWritten (fst (ProcessMetric Networks w m))) =
     (case Networks_List w (Project m) of
        Inl err \<Rightarrow> []
      | Inr items \<Rightarrow> [(customName ''gce_networks'', None, Some (int (length items)), None)])"
    by (simp add: Networks_ProcessMetric_def split_beta pointsWritten_append
          pointsWritten_Cons pointsWritten_Nil ReportTimeseries_points observation_def
          split: sum.split)
  have h: "map observation (pointsWritten (fst (ProcessMetric Routes w m))) =
     (case Routes_List w (Project m) of
        Inl err \<Rightarrow> []
      | Inr items \<Rightarrow> [(customName ''gce_routes'', None, Some (int (length items)), None)])"
    by (simp add: Routes_ProcessMetric_def split_beta pointsWritten_append
          pointsWritten_Cons pointsWritten_Nil ReportTimeseries_points observation_def
          split: sum.split)
  from a b c d e f g h show ?thesis by (intro conjI)
qed

end
